theory Spec2Isabelle
  imports Main "HOL-Library.Sublist"
begin

chapter \<open>WSLSnapit-MCP: the \<open>take_screenshot\<close> handler of \<open>index.js\<close>\<close>

text \<open>
  The handler of \<open>index.js\<close> does its work in four steps: it resolves the destination
  (lines 116-154), builds a PowerShell script as one string (lines 156-484), runs the
  script through \<open>powershell.exe\<close> and scans the output (lines 486-566), and completes the
  request, either by compressing the returned bitmap (lines 568-648) or by checking the
  saved file (lines 650-693). The JavaScript is modelled as functions on strings and
  records; the PowerShell text the handler generates is modelled twice: as the string the
  handler builds, and as functions that do what that script does when PowerShell runs it.
  Node's \<open>path\<close> module, \<open>sharp\<close> and the operators of PowerShell are not
  code of the repository; they are parameters of the model.
\<close>

section \<open>Image compressor (lines 587-624)\<close>

text \<open>
  A \<open>Buffer\<close> is a list of bytes. \<open>sharp(pngBuffer)\<close> is the pipeline \<open>Original\<close>;
  \<open>.resize({ width: w })\<close> is \<open>ResizeTo w\<close> (the code only ever resizes the original
  buffer). \<open>processedImage.jpeg({ quality, mozjpeg: true }).toBuffer()\<close> is the encoder, a
  parameter; it returns \<open>None\<close> when the promise rejects, and the rejection leaves the
  pipeline at once. Quality is a JavaScript number; the schema asks for an integer in
  1..100 and \<open>sharp\<close> accepts nothing else, so it is an \<open>int\<close>.
  The log records every call of the encoder, in order, with the stage that made it.
\<close>

type_synonym buffer = "char list"

datatype sharp_image = Original | ResizeTo nat

type_synonym encoder = "sharp_image \<Rightarrow> int \<Rightarrow> buffer option"

datatype stage = Requested | Reduction | Fallback1280 | Fallback800

type_synonym encode_op = "stage \<times> sharp_image \<times> int"

record compressed =
  finalBuffer :: buffer
  finalQuality :: int
  wasResized :: bool

definition maxSizeBytes :: nat where
  "maxSizeBytes = 950 * 1024"

text \<open>
  Lines 606-609:
  \<^verbatim>\<open>while (finalBuffer.length > maxSizeBytes && finalQuality > 20) {
    finalQuality -= 10;
    finalBuffer = await processedImage.jpeg({ quality: finalQuality, ... }).toBuffer(); }\<close>
\<close>

function reduce_quality ::
  "encoder \<Rightarrow> sharp_image \<Rightarrow> buffer \<Rightarrow> int \<Rightarrow> encode_op list
     \<Rightarrow> encode_op list \<times> (buffer \<times> int) option" where
  "reduce_quality jpeg processedImage buf q log =
     (if length buf > maxSizeBytes \<and> q > 20 then
        (case jpeg processedImage (q - 10) of
           None \<Rightarrow> (log @ [(Reduction, processedImage, q - 10)], None)
         | Some b \<Rightarrow>
             reduce_quality jpeg processedImage b (q - 10)
               (log @ [(Reduction, processedImage, q - 10)]))
      else (log, Some (buf, q)))"
  by pat_completeness auto
termination
  by (relation "measure (\<lambda>(jpeg, img, buf, q, log). nat (q - 20))") auto

declare reduce_quality.simps [simp del]

text \<open>Lines 619-623: the final attempt, width 800 at quality 50, whatever its size.\<close>

definition fallback_800 ::
  "encoder \<Rightarrow> encode_op list \<Rightarrow> encode_op list \<times> compressed option" where
  "fallback_800 jpeg log =
     (case jpeg (ResizeTo 800) 50 of
        None \<Rightarrow> (log @ [(Fallback800, ResizeTo 800, 50)], None)
      | Some b \<Rightarrow>
          (log @ [(Fallback800, ResizeTo 800, 50)],
           Some \<lparr>finalBuffer = b, finalQuality = 50, wasResized = True\<rparr>))"

text \<open>Lines 612-624: width 1280 at quality 60, then the final attempt if still too large.\<close>

definition fallback_1280 ::
  "encoder \<Rightarrow> encode_op list \<Rightarrow> encode_op list \<times> compressed option" where
  "fallback_1280 jpeg log =
     (case jpeg (ResizeTo 1280) 60 of
        None \<Rightarrow> (log @ [(Fallback1280, ResizeTo 1280, 60)], None)
      | Some b \<Rightarrow>
          if length b > maxSizeBytes
          then fallback_800 jpeg (log @ [(Fallback1280, ResizeTo 1280, 60)])
          else (log @ [(Fallback1280, ResizeTo 1280, 60)],
                Some \<lparr>finalBuffer = b, finalQuality = 60, wasResized = True\<rparr>))"

text \<open>
  Lines 591-624. \<open>width\<close> is \<open>metadata.width\<close>, \<open>quality\<close> the request's quality. The
  result is the log of encoder calls and, unless the encoder rejected, the final buffer
  with the quality and the resize flag the status text reports.
\<close>

definition compress ::
  "encoder \<Rightarrow> nat \<Rightarrow> int \<Rightarrow> encode_op list \<times> compressed option" where
  "compress jpeg width quality =
     (let processedImage = (if width > 1920 then ResizeTo 1920 else Original);
          resized = (width > 1920)
      in case jpeg processedImage quality of
           None \<Rightarrow> ([(Requested, processedImage, quality)], None)
         | Some b0 \<Rightarrow>
             (case reduce_quality jpeg processedImage b0 quality
                     [(Requested, processedImage, quality)] of
                (log, None) \<Rightarrow> (log, None)
              | (log, Some (b1, q1)) \<Rightarrow>
                  if length b1 > maxSizeBytes then fallback_1280 jpeg log
                  else (log, Some \<lparr>finalBuffer = b1, finalQuality = q1,
                                   wasResized = resized\<rparr>)))"

text \<open>
  Two encoders for the concrete runs below: one whose output never fits the budget (a
  bitmap so tall that every encoding of it is larger than 950 KiB), and one whose output
  fits only once the quality is below 20.
\<close>

definition oversize :: buffer where
  "oversize = replicate (maxSizeBytes + 1) (CHR 0x00)"

definition always_oversize :: encoder where
  "always_oversize img q = Some oversize"

definition fits_below_20 :: encoder where
  "fits_below_20 img q = (if q < 20 then Some ''jpeg'' else Some oversize)"

section \<open>Strings and numbers\<close>

text \<open>
  Strings are lists of bytes; the model is exact for ASCII text. \<open>sq\<close> is a single
  quote and \<open>bs\<close> a backslash, the two characters a string literal cannot hold.
\<close>

definition sq :: string where
  "sq = [CHR 0x27]"

definition bs :: string where
  "bs = [CHR 0x5C]"

definition dq :: string where
  "dq = [CHR 0x22]"

definition LF :: char where
  "LF = CHR 0x0A"

text \<open>\<open>s.replace(/c/g, r)\<close> for a one-character pattern.\<close>

definition replace_char :: "char \<Rightarrow> string \<Rightarrow> string \<Rightarrow> string" where
  "replace_char c r s = concat (map (\<lambda>x. if x = c then r else [x]) s)"

definition is_lower :: "char \<Rightarrow> bool" where
  "is_lower c = (97 \<le> (of_char c :: nat) \<and> (of_char c :: nat) \<le> 122)"

definition is_upper :: "char \<Rightarrow> bool" where
  "is_upper c = (65 \<le> (of_char c :: nat) \<and> (of_char c :: nat) \<le> 90)"

definition is_digit :: "char \<Rightarrow> bool" where
  "is_digit c = (48 \<le> (of_char c :: nat) \<and> (of_char c :: nat) \<le> 57)"

definition toUpper :: "char \<Rightarrow> char" where
  "toUpper c = (if is_lower c then char_of ((of_char c :: nat) - 32) else c)"

definition toLower :: "char \<Rightarrow> char" where
  "toLower c = (if is_upper c then char_of ((of_char c :: nat) + 32) else c)"

text \<open>\<open>s.charAt(i)\<close>: the empty string when \<open>i\<close> is out of range.\<close>

definition charAt :: "string \<Rightarrow> nat \<Rightarrow> string" where
  "charAt s i = (if i < length s then [s ! i] else [])"

text \<open>\<open>s.includes(t)\<close> and \<open>s.startsWith(t)\<close>.\<close>

definition js_includes :: "string \<Rightarrow> string \<Rightarrow> bool" where
  "js_includes s t = sublist t s"

definition startsWith :: "string \<Rightarrow> string \<Rightarrow> bool" where
  "startsWith s t = prefix t s"

text \<open>\<open>s.indexOf(t)\<close>: \<open>None\<close> is JavaScript's -1.\<close>

fun indexOf :: "string \<Rightarrow> string \<Rightarrow> nat option" where
  "indexOf [] t = (if t = [] then Some 0 else None)"
| "indexOf (c # cs) t =
     (if prefix t (c # cs) then Some 0 else map_option Suc (indexOf cs t))"

text \<open>\<open>s.trim()\<close>, for the ASCII white space: tab, line feed, vertical tab, form feed,
  carriage return, space.\<close>

definition is_space :: "char \<Rightarrow> bool" where
  "is_space c = ((9 \<le> (of_char c :: nat) \<and> (of_char c :: nat) \<le> 13) \<or> of_char c = (32 :: nat))"

definition trim :: "string \<Rightarrow> string" where
  "trim s = rev (dropWhile is_space (rev (dropWhile is_space s)))"

text \<open>Decimal digits of a natural number, and the number a string of digits denotes.\<close>

fun show_nat :: "nat \<Rightarrow> string" where
  "show_nat n =
     (if n < 10 then [char_of (48 + n)]
      else show_nat (n div 10) @ [char_of (48 + n mod 10)])"

declare show_nat.simps [simp del]

definition parse_nat :: "string \<Rightarrow> nat" where
  "parse_nat s = foldl (\<lambda>a c. 10 * a + ((of_char c :: nat) - 48)) 0 s"

text \<open>An integer in decimal notation, with its sign.\<close>

definition show_int :: "int \<Rightarrow> string" where
  "show_int i = (if i < 0 then ''-'' @ show_nat (nat (- i)) else show_nat (nat i))"

section \<open>The request (lines 101-114)\<close>

text \<open>
  \<open>args\<close> as the schema types it; a property that is absent is \<open>None\<close>. The monitor is
  a string or a number. A number is an integer here: the type has no request whose
  \<open>windowIndex\<close>, \<open>quality\<close> or monitor number has a fraction. The destructuring of
  lines 102-111 supplies the defaults.
\<close>

datatype js_value = JStr string | JNum int

record args =
  arg_filename :: "string option"
  arg_monitor :: "js_value option"
  arg_windowTitle :: "string option"
  arg_windowIndex :: "int option"
  arg_processName :: "string option"
  arg_folder :: "string option"
  arg_returnDirect :: "bool option"
  arg_quality :: "int option"

definition no_args :: args where
  "no_args = \<lparr>arg_filename = None, arg_monitor = None, arg_windowTitle = None,
     arg_windowIndex = None, arg_processName = None, arg_folder = None,
     arg_returnDirect = None, arg_quality = None\<rparr>"

definition filename_of :: "args \<Rightarrow> string" where
  "filename_of a = (case arg_filename a of None \<Rightarrow> ''screenshot.png'' | Some f \<Rightarrow> f)"

definition monitor_of :: "args \<Rightarrow> js_value" where
  "monitor_of a = (case arg_monitor a of None \<Rightarrow> JStr ''all'' | Some m \<Rightarrow> m)"

definition windowIndex_of :: "args \<Rightarrow> int" where
  "windowIndex_of a = (case arg_windowIndex a of None \<Rightarrow> 1 | Some i \<Rightarrow> i)"

definition returnDirect_of :: "args \<Rightarrow> bool" where
  "returnDirect_of a = (case arg_returnDirect a of None \<Rightarrow> True | Some b \<Rightarrow> b)"

definition quality_of :: "args \<Rightarrow> int" where
  "quality_of a = (case arg_quality a of None \<Rightarrow> 80 | Some q \<Rightarrow> q)"

text \<open>Line 114: \<open>args.hasOwnProperty('windowIndex')\<close>.\<close>

definition windowIndexProvided :: "args \<Rightarrow> bool" where
  "windowIndexProvided a = (arg_windowIndex a \<noteq> None)"

text \<open>
  JavaScript's truth test of an optional string (\<open>if (folder)\<close>, \<open>windowTitle ||
  processName\<close>): absent and empty are both false. \<open>or_empty\<close> is \<open>(x || '')\<close>.
\<close>

definition truthy :: "string option \<Rightarrow> bool" where
  "truthy x = (case x of None \<Rightarrow> False | Some s \<Rightarrow> s \<noteq> [])"

definition or_empty :: "string option \<Rightarrow> string" where
  "or_empty x = (case x of None \<Rightarrow> [] | Some s \<Rightarrow> s)"

section \<open>Destination (lines 116-154)\<close>

text \<open>
  What the handler uses of Node and of \<open>sharp\<close>: the working directory, \<open>path.resolve\<close>
  and \<open>path.join\<close>, \<open>fs.mkdir\<close> and \<open>fs.access\<close> (\<open>True\<close> when the promise resolves),
  base64 coding, the width \<open>sharp(buffer).metadata()\<close> reports (\<open>None\<close> when it
  rejects), the JPEG encoder of a decoded buffer, and the exponent notation in which
  JavaScript prints a number of magnitude \<open>10^21\<close> or more (\<open>1e+21\<close>).
\<close>

record node_env =
  cwd :: string
  path_resolve :: "string \<Rightarrow> string"
  path_join :: "string list \<Rightarrow> string"
  fs_mkdir :: "string \<Rightarrow> bool"
  fs_access :: "string \<Rightarrow> bool"
  base64_decode :: "string \<Rightarrow> buffer"
  base64_encode :: "buffer \<Rightarrow> string"
  metadata_width :: "buffer \<Rightarrow> nat option"
  jpeg_encoder :: "buffer \<Rightarrow> encoder"
  exponent_form :: "int \<Rightarrow> string"

text \<open>
  A number in a template literal (\<open>`${n}`\<close>): an integer below \<open>10^21\<close> in magnitude
  prints as its decimal digits, a larger one in exponent notation.
\<close>

definition js_number_string :: "node_env \<Rightarrow> int \<Rightarrow> string" where
  "js_number_string env i = (if \<bar>i\<bar> < 10 ^ 21 then show_int i else exponent_form env i)"

definition template_string :: "node_env \<Rightarrow> js_value \<Rightarrow> string" where
  "template_string env v = (case v of JStr s \<Rightarrow> s | JNum n \<Rightarrow> js_number_string env n)"

text \<open>The calls of \<open>fs\<close> the handler makes, in order.\<close>

datatype fs_op = Mkdir string | Access string

text \<open>
  \<open>p.replace(/^\/mnt\/([a-z])\//i, (match, drive) => drive.toUpperCase() + ':\\')\<close>:
  a leading \<open>/mnt/x/\<close>, in either case, becomes \<open>X:\\<close>.
\<close>

definition mnt_to_drive :: "string \<Rightarrow> string" where
  "mnt_to_drive p =
     (if 7 \<le> length p \<and> map toLower (take 5 p) = ''/mnt/'' \<and>
         (is_lower (p ! 5) \<or> is_upper (p ! 5)) \<and> p ! 6 = CHR ''/''
      then [toUpper (p ! 5)] @ '':'' @ bs @ drop 7 p
      else p)"

text \<open>\<open>.replace(/\//g, '\\')\<close>: every slash becomes a backslash.\<close>

definition backslashes :: "string \<Rightarrow> string" where
  "backslashes p = replace_char (CHR ''/'') bs p"

text \<open>Lines 122-141: the Windows form of a folder that was supplied.\<close>

definition windowsFolder :: "node_env \<Rightarrow> string \<Rightarrow> string" where
  "windowsFolder env folder =
     (if startsWith folder ''/mnt/'' then
        map toUpper (charAt folder 5) @ '':'' @ bs @ backslashes (drop 7 folder)
      else if startsWith folder ''/'' then
        backslashes (mnt_to_drive (path_resolve env folder))
      else if \<not> js_includes folder ('':'' @ bs) then
        backslashes (mnt_to_drive (path_resolve env folder))
      else folder)"

text \<open>
  Lines 117-149. \<open>customFolder\<close> is \<open>false\<close> (\<open>None\<close>) or the Windows folder. Without a
  folder the default directory is created, in either output mode; the request ends there
  if \<open>fs.mkdir\<close> rejects (\<open>None\<close>).
\<close>

record destination =
  screenshotsDir :: string
  customFolder :: "string option"

definition resolve_destination :: "node_env \<Rightarrow> args \<Rightarrow> fs_op list \<times> destination option" where
  "resolve_destination env a =
     (if truthy (arg_folder a) then
        ([], Some \<lparr>screenshotsDir = or_empty (arg_folder a),
                   customFolder = Some (windowsFolder env (or_empty (arg_folder a)))\<rparr>)
      else
        (let dir = path_join env [cwd env, ''screenshots''] in
         ([Mkdir dir],
          if fs_mkdir env dir then Some \<lparr>screenshotsDir = dir, customFolder = None\<rparr>
          else None)))"

text \<open>
  Lines 151-154: \<open>customFolder || path.join(process.cwd(), 'screenshots', filename)...\<close>.
  With a folder the path is the folder itself; the file name is joined only to the
  default directory.
\<close>

definition windowsPath :: "node_env \<Rightarrow> args \<Rightarrow> string" where
  "windowsPath env a =
     (if truthy (arg_folder a) \<and> windowsFolder env (or_empty (arg_folder a)) \<noteq> []
      then windowsFolder env (or_empty (arg_folder a))
      else backslashes (mnt_to_drive
             (path_join env [cwd env, ''screenshots'', filename_of a])))"

section \<open>The PowerShell script, as text (lines 156-484)\<close>

text \<open>
  The template literals of the handler, character for character; a name between the
  pieces is an interpolation \<open>${...}\<close>.
\<close>

text \<open>Lines 184-288: \<open>psScriptBase\<close>, the prologue of a window capture.\<close>

definition psScriptBase :: "string" where
  \<open>psScriptBase =
     ''\<newline>'' @
     ''          try {\<newline>'' @
     ''          $ErrorActionPreference = 'Stop'\<newline>'' @
     ''          Add-Type -AssemblyName System.Drawing\<newline>'' @
     ''          Add-Type @"\<newline>'' @
     ''            using System;\<newline>'' @
     ''            using System.Runtime.InteropServices;\<newline>'' @
     ''            using System.Drawing;\<newline>'' @
     ''            \<newline>'' @
     ''            public class Win32 {\<newline>'' @
     ''              [DllImport("user32.dll")]\<newline>'' @
     ''              public static extern bool SetProcessDPIAware();\<newline>'' @
     ''              \<newline>'' @
     ''              [DllImport("user32.dll")]\<newline>'' @
     ''              public static extern IntPtr FindWindow(string lpClassName, string lpWindowName);\<newline>'' @
     ''              \<newline>'' @
     ''              [DllImport("user32.dll")]\<newline>'' @
     ''              public static extern bool GetWindowRect(IntPtr hWnd, out RECT lpRect);\<newline>'' @
     ''              \<newline>'' @
     ''              [DllImport("user32.dll")]\<newline>'' @
     ''              public static extern bool SetForegroundWindow(IntPtr hWnd);\<newline>'' @
     ''              \<newline>'' @
     ''              public struct RECT {\<newline>'' @
     ''                public int Left;\<newline>'' @
     ''                public int Top;\<newline>'' @
     ''                public int Right;\<newline>'' @
     ''                public int Bottom;\<newline>'' @
     ''              }\<newline>'' @
     ''            }\<newline>'' @
     ''"@\<newline>'' @
     ''          \<newline>'' @
     ''          # Enable per-monitor DPI awareness for accurate capture\<newline>'' @
     ''          Add-Type @"\<newline>'' @
     ''            using System.Runtime.InteropServices;\<newline>'' @
     ''            public class DPI {\<newline>'' @
     ''              [DllImport("shcore.dll")]\<newline>'' @
     ''              public static extern int SetProcessDpiAwareness(int value);\<newline>'' @
     ''            }\<newline>'' @
     ''"@\<newline>'' @
     ''          [DPI]::SetProcessDpiAwareness(2)\<newline>'' @
     ''          [Win32]::SetProcessDPIAware() # Fallback\<newline>'' @
     ''          \<newline>'' @
     ''          # Enhanced window search using EnumWindows for better performance and cleaner errors\<newline>'' @
     ''          Add-Type @"\<newline>'' @
     ''            using System;\<newline>'' @
     ''            using System.Collections.Generic;\<newline>'' @
     ''            using System.Diagnostics;\<newline>'' @
     ''            using System.Runtime.InteropServices;\<newline>'' @
     ''            using System.Text;\<newline>'' @
     ''            \<newline>'' @
     ''            public class WindowEnumerator {\<newline>'' @
     ''              [DllImport("user32.dll")]\<newline>'' @
     ''              public static extern bool EnumWindows(EnumWindowsProc enumProc, IntPtr lParam);\<newline>'' @
     ''              \<newline>'' @
     ''              [DllImport("user32.dll")]\<newline>'' @
     ''              public static extern int GetWindowText(IntPtr hWnd, StringBuilder lpString, int nMaxCount);\<newline>'' @
     ''              \<newline>'' @
     ''              [DllImport("user32.dll")]\<newline>'' @
     ''              public static extern bool IsWindowVisible(IntPtr hWnd);\<newline>'' @
     ''              \<newline>'' @
     ''              [DllImport("user32.dll")]\<newline>'' @
     ''              public static extern uint GetWindowThreadProcessId(IntPtr hWnd, out uint processId);\<newline>'' @
     ''              \<newline>'' @
     ''              public delegate bool EnumWindowsProc(IntPtr hWnd, IntPtr lParam);\<newline>'' @
     ''              \<newline>'' @
     ''              public static List<WindowInfo> GetVisibleWindows() {\<newline>'' @
     ''                List<WindowInfo> windows = new List<WindowInfo>();\<newline>'' @
     ''                EnumWindows((hWnd, lParam) => {\<newline>'' @
     ''                  if (IsWindowVisible(hWnd)) {\<newline>'' @
     ''                    StringBuilder title = new StringBuilder(256);\<newline>'' @
     ''                    GetWindowText(hWnd, title, title.Capacity);\<newline>'' @
     ''                    if (title.Length > 0) {\<newline>'' @
     ''                      uint processId;\<newline>'' @
     ''                      GetWindowThreadProcessId(hWnd, out processId);\<newline>'' @
     ''                      try {\<newline>'' @
     ''                        Process process = Process.GetProcessById((int)processId);\<newline>'' @
     ''                        windows.Add(new WindowInfo {\<newline>'' @
     ''                          Handle = hWnd,\<newline>'' @
     ''                          Title = title.ToString(),\<newline>'' @
     ''                          ProcessName = process.ProcessName\<newline>'' @
     ''                        });\<newline>'' @
     ''                      } catch {\<newline>'' @
     ''                        // Skip if process no longer exists\<newline>'' @
     ''                      }\<newline>'' @
     ''                    }\<newline>'' @
     ''                  }\<newline>'' @
     ''                  return true;\<newline>'' @
     ''                }, IntPtr.Zero);\<newline>'' @
     ''                return windows;\<newline>'' @
     ''              }\<newline>'' @
     ''            }\<newline>'' @
     ''            \<newline>'' @
     ''            public class WindowInfo {\<newline>'' @
     ''              public IntPtr Handle;\<newline>'' @
     ''              public string Title;\<newline>'' @
     ''              public string ProcessName;\<newline>'' @
     ''            }\<newline>'' @
     ''"@\<newline>'' @
     ''          \<newline>'' @
     ''          # Get all visible windows\<newline>'' @
     ''          $allWindows = [WindowEnumerator]::GetVisibleWindows()\<newline>'' @
     ''          $hwnd = [IntPtr]::Zero\<newline>'' @
     ''          $foundWindow = $null\<newline>'' @
     ''          \<newline>'' @
     ''          # Search by title or process name''\<close>

text \<open>Lines 292-329: \<open>searchLogic\<close> when \<open>windowTitle\<close> is given.\<close>

definition title_searchLogic :: "string \<Rightarrow> string \<Rightarrow> string \<Rightarrow> string" where
  \<open>title_searchLogic escapedWindowTitle psWindowIndexProvided windowIndex =
     ''\<newline>'' @
     ''          if ("'' @ escapedWindowTitle @ ''" -ne "") {\<newline>'' @
     ''            $matchingWindows = @()\<newline>'' @
     ''            foreach ($win in $allWindows) {\<newline>'' @
     ''              if ($win.Title -like "*'' @ escapedWindowTitle @ ''*") {\<newline>'' @
     ''                $matchingWindows += $win\<newline>'' @
     ''              }\<newline>'' @
     ''            }\<newline>'' @
     ''            \<newline>'' @
     ''            if ($matchingWindows.Count -eq 0) {\<newline>'' @
     ''              [Console]::Error.WriteLine("WINDOW_NOT_FOUND:'' @ escapedWindowTitle @ ''")\<newline>'' @
     ''              exit 1\<newline>'' @
     ''            } elseif ($matchingWindows.Count -gt 1) {\<newline>'' @
     ''              # Multiple windows found - check if windowIndex was explicitly provided\<newline>'' @
     ''              $windowIndexProvided = '' @ psWindowIndexProvided @ ''\<newline>'' @
     ''              $windowIndex = '' @ windowIndex @ ''\<newline>'' @
     ''              if ($windowIndexProvided -eq $true -and $windowIndex -ge 1 -and $windowIndex -le $matchingWindows.Count) {\<newline>'' @
     ''                # Valid windowIndex explicitly provided, select that window\<newline>'' @
     ''                $foundWindow = $matchingWindows[$windowIndex - 1]\<newline>'' @
     ''                $hwnd = $foundWindow.Handle\<newline>'' @
     ''              } else {\<newline>'' @
     ''                # No windowIndex provided or invalid, show disambiguation list\<newline>'' @
     ''                $windowList = ""\<newline>'' @
     ''                for ($i = 0; $i -lt $matchingWindows.Count; $i++) {\<newline>'' @
     ''                  $win = $matchingWindows[$i]\<newline>'' @
     ''                  $windowList += "$(($i + 1)). $($win.Title) ($($win.ProcessName).exe)"\<newline>'' @
     ''                  if ($i -lt $matchingWindows.Count - 1) { $windowList += "`n" }\<newline>'' @
     ''                }\<newline>'' @
     ''                $windowList += "`n$(($matchingWindows.Count + 1)). Cancel capture"\<newline>'' @
     ''                [Console]::Error.WriteLine("MULTIPLE_WINDOWS_FOUND:'' @ escapedWindowTitle @ '':$windowList")\<newline>'' @
     ''                exit 1\<newline>'' @
     ''              }\<newline>'' @
     ''            } else {\<newline>'' @
     ''              # Single window found\<newline>'' @
     ''              $foundWindow = $matchingWindows[0]\<newline>'' @
     ''              $hwnd = $foundWindow.Handle\<newline>'' @
     ''            }\<newline>'' @
     ''          }''\<close>

text \<open>Lines 331-370: \<open>searchLogic\<close> when only \<open>processName\<close> is given.\<close>

definition process_searchLogic :: "string \<Rightarrow> string \<Rightarrow> string \<Rightarrow> string" where
  \<open>process_searchLogic escapedProcessName psWindowIndexProvided windowIndex =
     ''\<newline>'' @
     ''          if ("'' @ escapedProcessName @ ''" -ne "") {\<newline>'' @
     ''            # Strip .exe if provided\<newline>'' @
     ''            $searchProcess = "'' @ escapedProcessName @ ''".Replace(".exe", "")\<newline>'' @
     ''            $matchingWindows = @()\<newline>'' @
     ''            foreach ($win in $allWindows) {\<newline>'' @
     ''              if ($win.ProcessName -like "*$searchProcess*") {\<newline>'' @
     ''                $matchingWindows += $win\<newline>'' @
     ''              }\<newline>'' @
     ''            }\<newline>'' @
     ''            \<newline>'' @
     ''            if ($matchingWindows.Count -eq 0) {\<newline>'' @
     ''              [Console]::Error.WriteLine("PROCESS_NOT_FOUND:'' @ escapedProcessName @ ''")\<newline>'' @
     ''              exit 1\<newline>'' @
     ''            } elseif ($matchingWindows.Count -gt 1) {\<newline>'' @
     ''              # Multiple windows found - check if windowIndex was explicitly provided\<newline>'' @
     ''              $windowIndexProvided = '' @ psWindowIndexProvided @ ''\<newline>'' @
     ''              $windowIndex = '' @ windowIndex @ ''\<newline>'' @
     ''              if ($windowIndexProvided -eq $true -and $windowIndex -ge 1 -and $windowIndex -le $matchingWindows.Count) {\<newline>'' @
     ''                # Valid windowIndex explicitly provided, select that window\<newline>'' @
     ''                $foundWindow = $matchingWindows[$windowIndex - 1]\<newline>'' @
     ''                $hwnd = $foundWindow.Handle\<newline>'' @
     ''              } else {\<newline>'' @
     ''                # No windowIndex provided or invalid, show disambiguation list\<newline>'' @
     ''                $windowList = ""\<newline>'' @
     ''                for ($i = 0; $i -lt $matchingWindows.Count; $i++) {\<newline>'' @
     ''                  $win = $matchingWindows[$i]\<newline>'' @
     ''                  $windowList += "$(($i + 1)). $($win.Title) ($($win.ProcessName).exe)"\<newline>'' @
     ''                  if ($i -lt $matchingWindows.Count - 1) { $windowList += "`n" }\<newline>'' @
     ''                }\<newline>'' @
     ''                $windowList += "`n$(($matchingWindows.Count + 1)). Cancel capture"\<newline>'' @
     ''                [Console]::Error.WriteLine("MULTIPLE_WINDOWS_FOUND:'' @ escapedProcessName @ '':$windowList")\<newline>'' @
     ''                exit 1\<newline>'' @
     ''              }\<newline>'' @
     ''            } else {\<newline>'' @
     ''              # Single window found\<newline>'' @
     ''              $foundWindow = $matchingWindows[0]\<newline>'' @
     ''              $hwnd = $foundWindow.Handle\<newline>'' @
     ''            }\<newline>'' @
     ''          }''\<close>

text \<open>Lines 373-395: \<open>psScriptEnd\<close>, the capture of the window that was found.\<close>

definition psScriptEnd :: "string \<Rightarrow> string" where
  \<open>psScriptEnd captureCode =
     ''\<newline>'' @
     ''          \<newline>'' @
     ''          # Get window rectangle\<newline>'' @
     ''          $rect = New-Object Win32+RECT\<newline>'' @
     ''          [Win32]::GetWindowRect($hwnd, [ref]$rect) | Out-Null\<newline>'' @
     ''          \<newline>'' @
     ''          $width = $rect.Right - $rect.Left\<newline>'' @
     ''          $height = $rect.Bottom - $rect.Top\<newline>'' @
     ''          \<newline>'' @
     ''          # Bring window to foreground and wait for it to fully render\<newline>'' @
     ''          [Win32]::SetForegroundWindow($hwnd) | Out-Null\<newline>'' @
     ''          Start-Sleep -Milliseconds 200\<newline>'' @
     ''          \<newline>'' @
     ''          # Capture the window with DPI awareness\<newline>'' @
     ''          $bitmap = New-Object System.Drawing.Bitmap $width, $height\<newline>'' @
     ''          $graphics = [System.Drawing.Graphics]::FromImage($bitmap)\<newline>'' @
     ''          $graphics.CopyFromScreen($rect.Left, $rect.Top, 0, 0, $bitmap.Size)\<newline>'' @
     ''          \<newline>'' @
     ''          '' @ captureCode @ ''\<newline>'' @
     ''          } catch {\<newline>'' @
     ''            Write-Output "ERROR: $_"\<newline>'' @
     ''            exit 1\<newline>'' @
     ''          }''\<close>

text \<open>Lines 400-425: the script that captures all monitors.\<close>

definition all_monitors_psScript :: "string \<Rightarrow> string" where
  \<open>all_monitors_psScript captureCode =
     ''\<newline>'' @
     ''          try {\<newline>'' @
     ''          $ErrorActionPreference = 'Stop'\<newline>'' @
     ''          Add-Type -AssemblyName System.Windows.Forms\<newline>'' @
     ''          Add-Type -AssemblyName System.Drawing\<newline>'' @
     ''          # Enable per-monitor DPI awareness\<newline>'' @
     ''          Add-Type @"\<newline>'' @
     ''            using System.Runtime.InteropServices;\<newline>'' @
     ''            public class DPI {\<newline>'' @
     ''              [DllImport("shcore.dll")]\<newline>'' @
     ''              public static extern int SetProcessDpiAwareness(int value);\<newline>'' @
     ''            }\<newline>'' @
     ''"@\<newline>'' @
     ''          [DPI]::SetProcessDpiAwareness(2)\<newline>'' @
     ''          \<newline>'' @
     ''          $screen = [System.Windows.Forms.SystemInformation]::VirtualScreen\<newline>'' @
     ''          $bitmap = New-Object System.Drawing.Bitmap $screen.Width, $screen.Height\<newline>'' @
     ''          $graphics = [System.Drawing.Graphics]::FromImage($bitmap)\<newline>'' @
     ''          $graphics.CopyFromScreen($screen.Left, $screen.Top, 0, 0, $bitmap.Size)\<newline>'' @
     ''          \<newline>'' @
     ''          '' @ captureCode @ ''\<newline>'' @
     ''          } catch {\<newline>'' @
     ''            Write-Output "ERROR: $_"\<newline>'' @
     ''            exit 1\<newline>'' @
     ''          }\<newline>'' @
     ''        ''\<close>

text \<open>Lines 428-483: the script that captures one monitor.\<close>

definition monitor_psScript :: "string \<Rightarrow> string \<Rightarrow> string" where
  \<open>monitor_psScript monitor captureCode =
     ''\<newline>'' @
     ''          try {\<newline>'' @
     ''          $ErrorActionPreference = 'Stop'\<newline>'' @
     ''          Add-Type -AssemblyName System.Windows.Forms\<newline>'' @
     ''          Add-Type -AssemblyName System.Drawing\<newline>'' @
     ''          \<newline>'' @
     ''          # Enable DPI awareness - MUST be per-monitor for multi-monitor setups with scaling\<newline>'' @
     ''          Add-Type @"\<newline>'' @
     ''            using System;\<newline>'' @
     ''            using System.Runtime.InteropServices;\<newline>'' @
     ''            public class DPIAware {\<newline>'' @
     ''              [DllImport("user32.dll")]\<newline>'' @
     ''              public static extern bool SetProcessDPIAware();\<newline>'' @
     ''              \<newline>'' @
     ''              [DllImport("shcore.dll")]\<newline>'' @
     ''              public static extern int SetProcessDpiAwareness(int value);\<newline>'' @
     ''            }\<newline>'' @
     ''"@\<newline>'' @
     ''          # Always use per-monitor DPI awareness (2) for accurate capture\<newline>'' @
     ''          [DPIAware]::SetProcessDpiAwareness(2)\<newline>'' @
     ''          \<newline>'' @
     ''          $screens = [System.Windows.Forms.Screen]::AllScreens\<newline>'' @
     ''          $targetScreen = $null\<newline>'' @
     ''          \<newline>'' @
     ''          # Sort by X position ascending (left to right) to match Windows display numbering\<newline>'' @
     ''          $sortedScreens = $screens | Sort-Object { $_.Bounds.X }\<newline>'' @
     ''          \<newline>'' @
     ''          \<newline>'' @
     ''          if ('' @ sq @ monitor @ sq @ '' -eq 'primary') {\<newline>'' @
     ''            $targetScreen = [System.Windows.Forms.Screen]::PrimaryScreen\<newline>'' @
     ''          } elseif ('' @ sq @ monitor @ sq @ '' -match '^'' @ bs @ ''d+$') {\<newline>'' @
     ''            $index = [int]'' @ sq @ monitor @ sq @ '' - 1\<newline>'' @
     ''            if ($index -ge 0 -and $index -lt $sortedScreens.Count) {\<newline>'' @
     ''              $targetScreen = $sortedScreens[$index]\<newline>'' @
     ''            } else {\<newline>'' @
     ''              throw "Monitor '' @ monitor @ '' not found. Available monitors: 1 to $($sortedScreens.Count)"\<newline>'' @
     ''            }\<newline>'' @
     ''          }\<newline>'' @
     ''          \<newline>'' @
     ''          if ($targetScreen -eq $null) {\<newline>'' @
     ''            throw "Invalid monitor parameter: '' @ monitor @ ''"\<newline>'' @
     ''          }\<newline>'' @
     ''          \<newline>'' @
     ''          $bounds = $targetScreen.Bounds\<newline>'' @
     ''          \<newline>'' @
     ''          $bitmap = New-Object System.Drawing.Bitmap($bounds.Width, $bounds.Height)\<newline>'' @
     ''          $graphics = [System.Drawing.Graphics]::FromImage($bitmap)\<newline>'' @
     ''          # Use explicit coordinates for accurate capture\<newline>'' @
     ''          $graphics.CopyFromScreen($bounds.X, $bounds.Y, 0, 0, $bitmap.Size)\<newline>'' @
     ''          \<newline>'' @
     ''          '' @ captureCode @ ''\<newline>'' @
     ''          } catch {\<newline>'' @
     ''            Write-Output "ERROR: $_"\<newline>'' @
     ''            exit 1\<newline>'' @
     ''          }\<newline>'' @
     ''        ''\<close>

text \<open>Line 161: \<open>windowsPath.replace(/\\/g, '\\\\')\<close>, every backslash doubled.\<close>

definition windowsPathEscaped :: "string \<Rightarrow> string" where
  "windowsPathEscaped p = replace_char (CHR 0x5C) (bs @ bs) p"

text \<open>
  Lines 162-173: \<open>captureCode\<close>, the terminal action of every script. In Direct mode
  it writes the bitmap to standard output; in File mode it saves it to the path, which
  stands between single quotes.
\<close>

definition direct_captureCode :: string where
  \<open>direct_captureCode =
     ''# Return as PNG base64 for Node.js processing\<newline>'' @
     ''          $ms = New-Object System.IO.MemoryStream\<newline>'' @
     ''          $bitmap.Save($ms, [System.Drawing.Imaging.ImageFormat]::Png)\<newline>'' @
     ''          $base64 = [Convert]::ToBase64String($ms.ToArray())\<newline>'' @
     ''          Write-Output "BASE64:$base64"\<newline>'' @
     ''          $ms.Dispose()\<newline>'' @
     ''          $bitmap.Dispose()''\<close>

definition file_captureCode :: "string \<Rightarrow> string" where
  \<open>file_captureCode escapedPath =
     ''# Save to file\<newline>'' @
     ''          $bitmap.Save('' @ sq @ escapedPath @ sq @ '', [System.Drawing.Imaging.ImageFormat]::Png)\<newline>'' @
     ''          $bitmap.Dispose()\<newline>'' @
     ''          $graphics.Dispose()''\<close>

definition captureCode :: "node_env \<Rightarrow> args \<Rightarrow> string" where
  "captureCode env a =
     (if returnDirect_of a then direct_captureCode
      else file_captureCode (windowsPathEscaped (windowsPath env a)))"

text \<open>Line 177.\<close>

definition psWindowIndexProvided :: "args \<Rightarrow> string" where
  "psWindowIndexProvided a = (if windowIndexProvided a then ''$true'' else ''$false'')"

text \<open>
  Lines 179-181, under the comment \<open>// Escape variables to prevent injection\<close>:
  \<open>(windowTitle || '').replace(/"/g, '""')\<close>, every double quote doubled.
\<close>

definition escapedWindowTitle :: "args \<Rightarrow> string" where
  "escapedWindowTitle a = replace_char (CHR 0x22) (dq @ dq) (or_empty (arg_windowTitle a))"

definition escapedProcessName :: "args \<Rightarrow> string" where
  "escapedProcessName a = replace_char (CHR 0x22) (dq @ dq) (or_empty (arg_processName a))"

text \<open>Lines 290-371: the title branch comes first; the process branch is its \<open>else if\<close>.\<close>

definition searchLogic :: "node_env \<Rightarrow> args \<Rightarrow> string" where
  "searchLogic env a =
     (if truthy (arg_windowTitle a) then
        title_searchLogic (escapedWindowTitle a) (psWindowIndexProvided a)
          (js_number_string env (windowIndex_of a))
      else if truthy (arg_processName a) then
        process_searchLogic (escapedProcessName a) (psWindowIndexProvided a)
          (js_number_string env (windowIndex_of a))
      else [])"

text \<open>Lines 175-484: the script that is sent to PowerShell.\<close>

definition psScript :: "node_env \<Rightarrow> args \<Rightarrow> string" where
  "psScript env a =
     (if truthy (arg_windowTitle a) \<or> truthy (arg_processName a) then
        psScriptBase @ searchLogic env a @ psScriptEnd (captureCode env a)
      else if monitor_of a = JStr ''all'' then
        all_monitors_psScript (captureCode env a)
      else
        monitor_psScript (template_string env (monitor_of a)) (captureCode env a))"


text \<open>
  The same script by its template and the strings interpolated into it: the escaped
  search term, the text of \<open>$windowIndexProvided\<close> and the text of \<open>$windowIndex\<close> for
  a window search, the monitor for a monitor capture.
\<close>

datatype script_plan =
    TitleScript string string string
  | ProcessScript string string string
  | AllMonitorsScript
  | MonitorScript string

definition plan_of :: "node_env \<Rightarrow> args \<Rightarrow> script_plan" where
  "plan_of env a =
     (if truthy (arg_windowTitle a) then
        TitleScript (escapedWindowTitle a) (psWindowIndexProvided a)
          (js_number_string env (windowIndex_of a))
      else if truthy (arg_processName a) then
        ProcessScript (escapedProcessName a) (psWindowIndexProvided a)
          (js_number_string env (windowIndex_of a))
      else if monitor_of a = JStr ''all'' then AllMonitorsScript
      else MonitorScript (template_string env (monitor_of a)))"


text \<open>The terminal action of \<open>captureCode\<close>, with the text between the quotes of its path.\<close>

datatype capture_action = ReturnBase64 | SaveToFile string

definition capture_action_of :: "node_env \<Rightarrow> args \<Rightarrow> capture_action" where
  "capture_action_of env a =
     (if returnDirect_of a then ReturnBase64
      else SaveToFile (windowsPathEscaped (windowsPath env a)))"

section \<open>The PowerShell script, as behaviour\<close>

text \<open>
  What the generated scripts do when PowerShell runs them, read off the script text.
  The host supplies what the script reads from Windows and the operators of PowerShell:
  the visible windows in enumeration order, \<open>value -like pattern\<close>, the screens, the
  primary screen and \<open>Sort-Object\<close> by a key.
\<close>

record WindowInfo =
  Handle :: nat
  Title :: string
  ProcessName :: string

record Screen =
  DeviceName :: string
  Bounds_X :: int
  Bounds_Y :: int
  Bounds_Width :: int
  Bounds_Height :: int

record ps_host =
  GetVisibleWindows :: "WindowInfo list"
  like :: "string \<Rightarrow> string \<Rightarrow> bool"
  AllScreens :: "Screen list"
  PrimaryScreen :: Screen
  Sort_Object :: "(Screen \<Rightarrow> int) \<Rightarrow> Screen list \<Rightarrow> Screen list"

subsection \<open>How PowerShell reads the interpolated text\<close>

text \<open>
  The value of a double-quoted literal, from the text between its quotes: two double
  quotes stand for one. A single double quote ends the literal early, and PowerShell
  evaluates \<open>$\<close> and the backtick: what the script then does depends on the text in
  ways that are not modelled, and the value is \<open>None\<close>. So it is for a character
  outside ASCII (PowerShell reads some of them as quotes).
\<close>

definition is_ascii :: "char \<Rightarrow> bool" where
  "is_ascii c = ((of_char c :: nat) < 128)"

fun dq_value :: "string \<Rightarrow> string option" where
  "dq_value [] = Some []"
| "dq_value (c # s) =
     (if c = CHR 0x22 then
        (case s of
           [] \<Rightarrow> None
         | d # s' \<Rightarrow> if d = CHR 0x22 then map_option (Cons c) (dq_value s') else None)
      else if c = CHR ''$'' \<or> c = CHR 0x60 \<or> \<not> is_ascii c then None
      else map_option (Cons c) (dq_value s))"

text \<open>
  Text that a double-quoted literal holds as it stands once its double quotes are
  doubled: ASCII, with no \<open>$\<close> and no backtick.
\<close>

definition literal_text :: "string \<Rightarrow> bool" where
  "literal_text s = list_all (\<lambda>c. c \<noteq> CHR ''$'' \<and> c \<noteq> CHR 0x60 \<and> is_ascii c) s"

text \<open>
  The value of a single-quoted literal: two single quotes stand for one, nothing else is
  special; a single single quote ends the literal early.
\<close>

fun sq_value :: "string \<Rightarrow> string option" where
  "sq_value [] = Some []"
| "sq_value (c # s) =
     (if c = CHR 0x27 then
        (case s of
           [] \<Rightarrow> None
         | d # s' \<Rightarrow> if d = CHR 0x27 then map_option (Cons c) (sq_value s') else None)
      else if \<not> is_ascii c then None
      else map_option (Cons c) (sq_value s))"

text \<open>
  Lines 306-307, \<open>$windowIndexProvided = ...\<close> and \<open>$windowIndex = ...\<close>: the text is
  PowerShell source. \<open>$true\<close> and \<open>$false\<close> are the truth values; digits, with or
  without a minus sign, are an integer. Any other text is not modelled.
\<close>

definition ps_bool :: "string \<Rightarrow> bool option" where
  "ps_bool text =
     (if text = ''$true'' then Some True else if text = ''$false'' then Some False else None)"

definition ps_int_literal :: "string \<Rightarrow> int option" where
  "ps_int_literal text =
     (if text \<noteq> [] \<and> list_all is_digit text then Some (int (parse_nat text))
      else if text \<noteq> [] \<and> hd text = CHR ''-'' \<and> tl text \<noteq> [] \<and> list_all is_digit (tl text)
      then Some (- int (parse_nat (tl text)))
      else None)"

subsection \<open>The window search\<close>

text \<open>
  .NET's \<open>s.Replace(old, new)\<close>: one pass from the left, every occurrence of \<open>old\<close>
  replaced, characters compared exactly. (For an empty \<open>old\<close> .NET throws; the script
  calls it with \<open>".exe"\<close> only.)
\<close>

fun Replace :: "string \<Rightarrow> string \<Rightarrow> string \<Rightarrow> string" where
  "Replace [] old new = []"
| "Replace (c # cs) old new =
     (if old \<noteq> [] \<and> prefix old (c # cs)
      then new @ Replace (drop (length old) (c # cs)) old new
      else c # Replace cs old new)"

text \<open>
  Lines 314-320 and 355-361: the numbered list of the windows that matched, with the
  trailing cancel option.
\<close>

fun windowList_loop :: "nat \<Rightarrow> WindowInfo list \<Rightarrow> string" where
  "windowList_loop i [] = []"
| "windowList_loop i (win # rest) =
     show_nat (i + 1) @ ''. '' @ Title win @ '' ('' @ ProcessName win @ ''.exe)'' @
     (if rest \<noteq> [] then [LF] else []) @
     windowList_loop (i + 1) rest"

definition windowList :: "WindowInfo list \<Rightarrow> string" where
  "windowList matchingWindows =
     windowList_loop 0 matchingWindows @
     [LF] @ show_nat (length matchingWindows + 1) @ ''. Cancel capture''"

text \<open>
  Lines 293-329, the search by title. The result is the line the script writes to
  standard error before \<open>exit 1\<close>, or the window it goes on to capture (\<open>None\<close>: the
  search was skipped and \<open>$hwnd\<close> is still zero).
\<close>

definition title_matches :: "ps_host \<Rightarrow> string \<Rightarrow> WindowInfo list" where
  "title_matches host title =
     filter (\<lambda>win. like host (Title win) (''*'' @ title @ ''*'')) (GetVisibleWindows host)"

definition title_search ::
  "ps_host \<Rightarrow> string \<Rightarrow> bool \<Rightarrow> int \<Rightarrow> string + WindowInfo option" where
  "title_search host title provided windowIndex =
     (if title \<noteq> [] then
        (let matchingWindows = title_matches host title in
         if length matchingWindows = 0 then Inl (''WINDOW_NOT_FOUND:'' @ title)
         else if length matchingWindows > 1 then
           (if provided \<and> windowIndex \<ge> 1 \<and> windowIndex \<le> int (length matchingWindows)
            then Inr (Some (matchingWindows ! nat (windowIndex - 1)))
            else Inl (''MULTIPLE_WINDOWS_FOUND:'' @ title @ '':'' @ windowList matchingWindows))
         else Inr (Some (matchingWindows ! 0)))
      else Inr None)"

text \<open>
  Lines 332-370, the search by process name:
  \<open>$searchProcess = "...".Replace(".exe", "")\<close>, then \<open>-like "*$searchProcess*"\<close>.
\<close>

definition searchProcess :: "string \<Rightarrow> string" where
  "searchProcess name = Replace name ''.exe'' []"

definition process_matches :: "ps_host \<Rightarrow> string \<Rightarrow> WindowInfo list" where
  "process_matches host name =
     filter (\<lambda>win. like host (ProcessName win) (''*'' @ searchProcess name @ ''*''))
       (GetVisibleWindows host)"

definition process_search ::
  "ps_host \<Rightarrow> string \<Rightarrow> bool \<Rightarrow> int \<Rightarrow> string + WindowInfo option" where
  "process_search host name provided windowIndex =
     (if name \<noteq> [] then
        (let matchingWindows = process_matches host name in
         if length matchingWindows = 0 then Inl (''PROCESS_NOT_FOUND:'' @ name)
         else if length matchingWindows > 1 then
           (if provided \<and> windowIndex \<ge> 1 \<and> windowIndex \<le> int (length matchingWindows)
            then Inr (Some (matchingWindows ! nat (windowIndex - 1)))
            else Inl (''MULTIPLE_WINDOWS_FOUND:'' @ name @ '':'' @ windowList matchingWindows))
         else Inr (Some (matchingWindows ! 0)))
      else Inr None)"

subsection \<open>The choice of the monitor\<close>

text \<open>
  Lines 449-469. \<open>m\<close> is the value of \<open>'${monitor}'\<close> and \<open>shown\<close> the value of the
  same text between the double quotes of the two messages. \<open>'m' -eq 'primary'\<close>
  ignores case. \<open>'m' -match '^\d+$'\<close> holds for a non-empty run of digits, which a line
  feed may follow (.NET's \<open>$\<close>). \<open>[int]'m'\<close> throws when the number does not fit 32
  bits. The result is the message of the \<open>throw\<close>, or the screen to capture.
\<close>

definition ps_eq :: "string \<Rightarrow> string \<Rightarrow> bool" where
  "ps_eq a b = (map toLower a = map toLower b)"

definition digits_of :: "string \<Rightarrow> string" where
  "digits_of m = (if m \<noteq> [] \<and> last m = LF then butlast m else m)"

definition matches_digits :: "string \<Rightarrow> bool" where
  "matches_digits m = (digits_of m \<noteq> [] \<and> list_all is_digit (digits_of m))"

definition int32_error :: "string \<Rightarrow> string" where
  \<open>int32_error m =
     ''Cannot convert value "'' @ m @ ''" to type "System.Int32". '' @
     ''Error: "Value was either too large or too small for an Int32."''\<close>

definition sortedScreens :: "ps_host \<Rightarrow> Screen list" where
  "sortedScreens host = Sort_Object host Bounds_X (AllScreens host)"

definition select_monitor :: "ps_host \<Rightarrow> string \<Rightarrow> string \<Rightarrow> string + Screen" where
  "select_monitor host m shown =
     (if ps_eq m ''primary'' then Inr (PrimaryScreen host)
      else if matches_digits m then
        (if 2 ^ 31 \<le> parse_nat (digits_of m) then Inl (int32_error m)
         else
           (let index = int (parse_nat (digits_of m)) - 1 in
            if index \<ge> 0 \<and> index < int (length (sortedScreens host))
            then Inr (sortedScreens host ! nat index)
            else Inl (''Monitor '' @ shown @ '' not found. Available monitors: 1 to '' @
                      show_nat (length (sortedScreens host)))))
      else Inl (''Invalid monitor parameter: '' @ shown))"

subsection \<open>A run of the script\<close>

text \<open>
  A run of the script a plan stands for: it exits on a search that failed (the line on
  standard error), it catches a \<open>throw\<close> (\<open>Write-Output "ERROR: $_"\<close>, on standard
  output), or it reaches \<open>captureCode\<close> with the bitmap of its target and prints it as
  base64 text or saves it to a path. Failures of the capture itself are not modelled.
  The run is \<open>Unmodelled\<close> when a literal of the script holds text that PowerShell does
  not take as it stands.
\<close>

datatype capture_target = WindowTarget "WindowInfo option" | VirtualScreen | ScreenTarget Screen

datatype capture_result = Base64Output | SavedTo string

datatype bridge_outcome =
    ExitWith string
  | Caught string
  | Captured capture_target capture_result
  | Unmodelled

definition capture_result_of :: "capture_action \<Rightarrow> capture_result option" where
  "capture_result_of action =
     (case action of
        ReturnBase64 \<Rightarrow> Some Base64Output
      | SaveToFile text \<Rightarrow> map_option SavedTo (sq_value text))"

definition window_query :: "string \<Rightarrow> string \<Rightarrow> string \<Rightarrow> (string \<times> bool \<times> int) option" where
  "window_query escaped provided index =
     (case dq_value escaped of
        None \<Rightarrow> None
      | Some term \<Rightarrow>
          (case ps_bool provided of
             None \<Rightarrow> None
           | Some given \<Rightarrow>
               (case ps_int_literal index of
                  None \<Rightarrow> None
                | Some i \<Rightarrow> Some (term, given, i))))"

definition monitor_query :: "string \<Rightarrow> (string \<times> string) option" where
  "monitor_query text =
     (case sq_value text of
        None \<Rightarrow> None
      | Some m \<Rightarrow> (case dq_value text of None \<Rightarrow> None | Some shown \<Rightarrow> Some (m, shown)))"

definition run_bridge :: "ps_host \<Rightarrow> script_plan \<Rightarrow> capture_action \<Rightarrow> bridge_outcome" where
  "run_bridge host plan action =
     (case capture_result_of action of
        None \<Rightarrow> Unmodelled
      | Some result \<Rightarrow>
          (case plan of
             TitleScript escaped provided index \<Rightarrow>
               (case window_query escaped provided index of
                  None \<Rightarrow> Unmodelled
                | Some (title, given, i) \<Rightarrow>
                    (case title_search host title given i of
                       Inl line \<Rightarrow> ExitWith line
                     | Inr found \<Rightarrow> Captured (WindowTarget found) result))
           | ProcessScript escaped provided index \<Rightarrow>
               (case window_query escaped provided index of
                  None \<Rightarrow> Unmodelled
                | Some (name, given, i) \<Rightarrow>
                    (case process_search host name given i of
                       Inl line \<Rightarrow> ExitWith line
                     | Inr found \<Rightarrow> Captured (WindowTarget found) result))
           | AllMonitorsScript \<Rightarrow> Captured VirtualScreen result
           | MonitorScript text \<Rightarrow>
               (case monitor_query text of
                  None \<Rightarrow> Unmodelled
                | Some (m, shown) \<Rightarrow>
                    (case select_monitor host m shown of
                       Inl message \<Rightarrow> Caught message
                     | Inr screen \<Rightarrow> Captured (ScreenTarget screen) result))))"

section \<open>Output scan and completion (lines 506-693)\<close>

text \<open>
  The ways the request fails. The texts of the help messages (lines 534-564) and of the
  error cut from standard error (lines 660-667) are not modelled: the failure carries the
  output they are cut from. \<open>MultipleWindowsFound\<close> stands for every \<open>throw\<close>
  of lines 511-543 (the help message, or the \<open>TypeError\<close> of line 522 when no line of
  the list is left). Every failure but the rejected \<open>fs.mkdir\<close> is raised inside the
  \<open>try\<close> of line 156 and reaches the caller behind the prefix \<open>Failed to take
  screenshot:\<close> (line 695).
\<close>

datatype failure =
    MkdirRejected string
  | MultipleWindowsFound string
  | WindowNotFound string
  | ProcessNotFound string
  | NoBase64Output
  | SharpRejected
  | CaptureFailed string
  | AccessRejected string

datatype content = TextContent string | ImageContent string string

text \<open>
  Line 510: whether \<open>/MULTIPLE_WINDOWS_FOUND:([^:]+):([\s\S]+?)(?:DEBUG:|$)/\<close> matches:
  somewhere the marker is followed by at least one character other than a colon, a
  colon, and at least one more character.
\<close>

fun multiple_match :: "string \<Rightarrow> bool" where
  "multiple_match [] = False"
| "multiple_match (c # cs) =
     ((prefix ''MULTIPLE_WINDOWS_FOUND:'' (c # cs) \<and>
       takeWhile (\<lambda>x. x \<noteq> CHR '':'') (drop 23 (c # cs)) \<noteq> [] \<and>
       2 \<le> length (dropWhile (\<lambda>x. x \<noteq> CHR '':'') (drop 23 (c # cs))))
      \<or> multiple_match cs)"

text \<open>Lines 507-566: the three sentinels, in this order.\<close>

definition sentinel_failure :: "string \<Rightarrow> failure option" where
  "sentinel_failure combinedOutput =
     (if js_includes combinedOutput ''MULTIPLE_WINDOWS_FOUND:'' \<and> multiple_match combinedOutput
      then Some (MultipleWindowsFound combinedOutput)
      else if js_includes combinedOutput ''WINDOW_NOT_FOUND:''
      then Some (WindowNotFound combinedOutput)
      else if js_includes combinedOutput ''PROCESS_NOT_FOUND:''
      then Some (ProcessNotFound combinedOutput)
      else None)"

text \<open>Lines 575-582: the base64 text after the marker, cut at a later \<open>ERROR:\<close>.\<close>

definition extract_base64 :: "string \<Rightarrow> nat \<Rightarrow> string" where
  "extract_base64 stdout markerIndex =
     (let base64Data = trim (drop (markerIndex + 7) stdout) in
      case indexOf base64Data ''ERROR:'' of
        None \<Rightarrow> base64Data
      | Some errorIndex \<Rightarrow>
          if errorIndex > 0 then trim (take errorIndex base64Data) else base64Data)"

text \<open>Lines 627-633: \<open>Math.round(finalBuffer.length / 1024)\<close> and the status text.\<close>

definition statusText :: "node_env \<Rightarrow> compressed \<Rightarrow> string" where
  "statusText env r =
     ''Screenshot captured successfully ('' @ show_nat ((length (finalBuffer r) + 512) div 1024) @
     ''KB, JPEG quality: '' @ js_number_string env (finalQuality r) @ ''%)''"

text \<open>
  Lines 569-648, Direct mode: no call of \<open>fs\<close>; the image goes through \<open>compress\<close>
  and comes back as base64 text.
\<close>

definition direct_return :: "node_env \<Rightarrow> args \<Rightarrow> string \<Rightarrow> failure + content list" where
  "direct_return env a stdout =
     (case indexOf stdout ''BASE64:'' of
        None \<Rightarrow> Inl NoBase64Output
      | Some markerIndex \<Rightarrow>
          (let pngBuffer = base64_decode env (extract_base64 stdout markerIndex) in
           case metadata_width env pngBuffer of
             None \<Rightarrow> Inl SharpRejected
           | Some width \<Rightarrow>
               (case snd (compress (jpeg_encoder env pngBuffer) width (quality_of a)) of
                  None \<Rightarrow> Inl SharpRejected
                | Some r \<Rightarrow>
                    if wasResized r then
                      (case metadata_width env (finalBuffer r) of
                         None \<Rightarrow> Inl SharpRejected
                       | Some w \<Rightarrow>
                           Inr [TextContent (statusText env r @ '' - Resized to '' @ show_nat w @
                                             ''px width''),
                                ImageContent (base64_encode env (finalBuffer r)) ''image/jpeg''])
                    else
                      Inr [TextContent (statusText env r),
                           ImageContent (base64_encode env (finalBuffer r)) ''image/jpeg''])))"

text \<open>Lines 651-656.\<close>

definition hasRealError :: "string \<Rightarrow> bool" where
  "hasRealError stderr =
     (stderr \<noteq> [] \<and>
      (js_includes stderr ''throw'' \<or> js_includes stderr ''Exception'' \<or>
       js_includes stderr ''ERROR:'' \<or>
       (js_includes stderr ''Error'' \<and> \<not> js_includes stderr ''ErrorId'')))"

text \<open>
  Lines 676-683: the path of the success message, \<open>path.join(customFolder,
  filename).replace(/\\/g, '/')\<close> or \<open>screenshots/filename\<close>.
\<close>

definition successPath :: "node_env \<Rightarrow> args \<Rightarrow> destination \<Rightarrow> string" where
  "successPath env a dest =
     (if truthy (customFolder dest)
      then replace_char (CHR 0x5C) ''/'' (path_join env [or_empty (customFolder dest), filename_of a])
      else ''screenshots/'' @ filename_of a)"

text \<open>Lines 671-692, File mode: the file is looked for, then reported.\<close>

definition file_return ::
  "node_env \<Rightarrow> args \<Rightarrow> destination \<Rightarrow> fs_op list \<times> (failure + content list)" where
  "file_return env a dest =
     (let outputPath = path_join env [screenshotsDir dest, filename_of a] in
      ([Access outputPath],
       if fs_access env outputPath
       then Inr [TextContent (''Screenshot saved successfully to: '' @ successPath env a dest)]
       else Inl (AccessRejected outputPath)))"

text \<open>Lines 568-693.\<close>

definition complete ::
  "node_env \<Rightarrow> args \<Rightarrow> destination \<Rightarrow> string \<Rightarrow> string
     \<Rightarrow> fs_op list \<times> (failure + content list)" where
  "complete env a dest stdout stderr =
     (if returnDirect_of a then ([], direct_return env a stdout)
      else if hasRealError stderr then ([], Inl (CaptureFailed stderr))
      else file_return env a dest)"

text \<open>
  The handler, lines 101-697. \<open>exec\<close> runs a script through \<open>powershell.exe\<close> and gives
  its standard output and standard error, whether the process succeeded or not (lines
  493-504). The result is the list of the handler's \<open>fs\<close> calls and the response.
\<close>

definition take_screenshot ::
  "node_env \<Rightarrow> (string \<Rightarrow> string \<times> string) \<Rightarrow> args
     \<Rightarrow> fs_op list \<times> (failure + content list)" where
  "take_screenshot env exec a =
     (case resolve_destination env a of
        (ops, None) \<Rightarrow> (ops, Inl (MkdirRejected (path_join env [cwd env, ''screenshots''])))
      | (ops, Some dest) \<Rightarrow>
          (case exec (psScript env a) of
             (stdout, stderr) \<Rightarrow>
               (case sentinel_failure (stdout @ stderr) of
                  Some f \<Rightarrow> (ops, Inl f)
                | None \<Rightarrow>
                    (case complete env a dest stdout stderr of
                       (ops', response) \<Rightarrow> (ops @ ops', response)))))"

section \<open>A host and an environment for the concrete runs\<close>

text \<open>
  An environment whose working directory is \<open>/home/user/project\<close>, with a \<open>path.join\<close>
  that puts a slash between its arguments (as Node's does for arguments that need no
  normalising); the bitmap it decodes is 2560 pixels wide and every encoding of it is too
  large. A PowerShell host with three windows and two screens, the second enumerated
  screen standing to the left of the first; its \<open>-like\<close> tests containment without
  regard to case, as PowerShell's does for a pattern \<open>*t*\<close> whose \<open>t\<close> holds no wildcard
  character. A second host has one window, of the process \<open>my.exe.helper\<close>.
\<close>

fun slash_join :: "string list \<Rightarrow> string" where
  "slash_join [] = []"
| "slash_join [p] = p"
| "slash_join (p # ps) = p @ ''/'' @ slash_join ps"

definition env0 :: node_env where
  "env0 = \<lparr>cwd = ''/home/user/project'',
     path_resolve = (\<lambda>p. if startsWith p ''/'' then p else ''/home/user/project/'' @ p),
     path_join = slash_join,
     fs_mkdir = (\<lambda>p. True),
     fs_access = (\<lambda>p. True),
     base64_decode = (\<lambda>s. s),
     base64_encode = (\<lambda>b. b),
     metadata_width = (\<lambda>b. if length b < 100 then Some 2560 else Some 800),
     jpeg_encoder = (\<lambda>b. always_oversize),
     exponent_form = (\<lambda>i. ''1e+21'')\<rparr>"

definition contains_like :: "string \<Rightarrow> string \<Rightarrow> bool" where
  "contains_like v pattern = sublist (map toLower (butlast (tl pattern))) (map toLower v)"

definition win1 :: WindowInfo where
  "win1 = \<lparr>Handle = 101, Title = ''Inbox - Mail'', ProcessName = ''mail''\<rparr>"

definition win2 :: WindowInfo where
  "win2 = \<lparr>Handle = 102, Title = ''notes.txt - Notepad'', ProcessName = ''notepad''\<rparr>"

definition win3 :: WindowInfo where
  "win3 = \<lparr>Handle = 103, Title = ''todo.txt - Notepad'', ProcessName = ''notepad''\<rparr>"

definition right_screen :: Screen where
  "right_screen = \<lparr>DeviceName = ''DISPLAY1'', Bounds_X = 0, Bounds_Y = 0,
     Bounds_Width = 1920, Bounds_Height = 1080\<rparr>"

definition left_screen :: Screen where
  "left_screen = \<lparr>DeviceName = ''DISPLAY2'', Bounds_X = -1920, Bounds_Y = 0,
     Bounds_Width = 1920, Bounds_Height = 1080\<rparr>"

definition host0 :: ps_host where
  "host0 = \<lparr>GetVisibleWindows = [win1, win2, win3],
     like = contains_like,
     AllScreens = [right_screen, left_screen],
     PrimaryScreen = right_screen,
     Sort_Object = (\<lambda>key. sort_key key)\<rparr>"

definition helper_window :: WindowInfo where
  "helper_window = \<lparr>Handle = 201, Title = ''Helper'', ProcessName = ''my.exe.helper''\<rparr>"

definition helper_host :: ps_host where
  "helper_host = host0\<lparr>GetVisibleWindows := [helper_window]\<rparr>"



definition monitor_number :: "int \<Rightarrow> args" where
  "monitor_number n = no_args\<lparr>arg_monitor := Some (JNum n)\<rparr>"

definition empty_title_notepad :: args where
  "empty_title_notepad =
     no_args\<lparr>arg_windowTitle := Some [], arg_processName := Some ''notepad''\<rparr>"

definition title_and_process :: args where
  "title_and_process =
     no_args\<lparr>arg_windowTitle := Some ''Notepad'', arg_processName := Some ''mail''\<rparr>"

definition custom_folder_file :: args where
  "custom_folder_file =
     no_args\<lparr>arg_folder := Some ''/mnt/c/shots'', arg_filename := Some ''a.png'',
       arg_returnDirect := Some False\<rparr>"


definition title_injection :: args where
  "title_injection = no_args\<lparr>arg_windowTitle := Some ''$(calc.exe)''\<rparr>"

definition monitor_injection :: args where
  "monitor_injection =
     no_args\<lparr>arg_monitor := Some (JStr (''1'' @ sq @ '' -or (calc.exe) -or '' @ sq @ ''1''))\<rparr>"

definition filename_injection :: args where
  "filename_injection =
     no_args\<lparr>arg_filename := Some (''a'' @ sq @ ''+(calc.exe)+'' @ sq @ ''.png''),
       arg_returnDirect := Some False\<rparr>"

text \<open>Two runs of the bridge: one that prints a bitmap, one that prints nothing.\<close>

definition exec_png :: "string \<Rightarrow> string \<times> string" where
  "exec_png script = (''BASE64:iVBORw0KGgo='', [])"

definition exec_silent :: "string \<Rightarrow> string \<times> string" where
  "exec_silent script = ([], [])"

definition helper_by_process :: args where
  "helper_by_process = no_args\<lparr>arg_processName := Some ''my.exe.helper''\<rparr>"

text \<open>
  What the monitor script prints on a host with two screens when it is asked for monitor
  3: the number \<open>SetProcessDpiAwareness\<close> returns, then the line of the \<open>catch\<close> block
  (line 480), both on standard output; nothing on standard error.
\<close>

definition CRLF :: string where
  "CRLF = [CHR 0x0D, CHR 0x0A]"

definition exec_monitor_3_of_2 :: "string \<Rightarrow> string \<times> string" where
  "exec_monitor_3_of_2 script =
     (''0'' @ CRLF @ ''ERROR: Monitor 3 not found. Available monitors: 1 to 2'' @ CRLF, [])"

section \<open>Properties of the image compressor\<close>

lemma length_oversize: "maxSizeBytes < length oversize"
  by (simp add: oversize_def)

lemma length_oversize_eq: "length oversize = 972801"
  unfolding oversize_def length_replicate maxSizeBytes_def by simp

lemma mod10_step: "(q - 10 - x) mod 10 = 0 \<Longrightarrow> (q - x) mod (10::int) = 0"
  by presburger

text \<open>The loop leaves with a buffer that fits, or with a quality of at most 20.\<close>

lemma reduce_quality_fits:
  "reduce_quality jpeg img buf q log = (log', Some (b, q')) \<Longrightarrow>
     length b \<le> maxSizeBytes \<or> q' \<le> 20"
proof (induction jpeg img buf q log rule: reduce_quality.induct)
  case (1 jpeg img buf q log)
  show ?case
  proof (cases "length buf > maxSizeBytes \<and> q > 20")
    case True
    with "1.prems" obtain b0 where e: "jpeg img (q - 10) = Some b0"
      by (auto simp: reduce_quality.simps [of jpeg img buf q log] split: option.splits)
    with True "1.prems" have
      "reduce_quality jpeg img b0 (q - 10) (log @ [(Reduction, img, q - 10)])
         = (log', Some (b, q'))"
      by (simp add: reduce_quality.simps [of jpeg img buf q log])
    with "1.IH" True e show ?thesis by blast
  next
    case False
    with "1.prems" show ?thesis
      by (auto simp: reduce_quality.simps [of jpeg img buf q log])
  qed
qed

text \<open>
  What the loop adds to the log: at most \<open>(q - 11) div 10\<close> encodes, each of the same
  image, at a quality above 10, below \<open>q\<close> and a multiple of 10 away from it.
\<close>

lemma reduce_quality_log:
  "reduce_quality jpeg img buf q log = (log', r) \<Longrightarrow>
     \<exists>ext. log' = log @ ext \<and> length ext \<le> nat ((q - 11) div 10) \<and>
       (\<forall>e \<in> set ext. fst e = Reduction \<and> fst (snd e) = img \<and>
            10 < snd (snd e) \<and> snd (snd e) < q \<and> (q - snd (snd e)) mod 10 = 0)"
proof (induction jpeg img buf q log arbitrary: log' r rule: reduce_quality.induct)
  case (1 jpeg img buf q log)
  show ?case
  proof (cases "length buf > maxSizeBytes \<and> q > 20")
    case False
    with "1.prems" have "log' = log"
      by (auto simp: reduce_quality.simps [of jpeg img buf q log])
    then show ?thesis by simp
  next
    case True
    let ?e = "(Reduction, img, q - 10)"
    have steps: "nat ((q - 10 - 11) div 10) + 1 \<le> nat ((q - 11) div 10)"
      using True by linarith
    show ?thesis
    proof (cases "jpeg img (q - 10)")
      case None
      with True "1.prems" have "log' = log @ [?e]"
        by (simp add: reduce_quality.simps [of jpeg img buf q log])
      moreover have "length [?e] \<le> nat ((q - 11) div 10)"
        using steps by simp
      ultimately show ?thesis using True by auto
    next
      case (Some b0)
      with True "1.prems" have
        "reduce_quality jpeg img b0 (q - 10) (log @ [?e]) = (log', r)"
        by (simp add: reduce_quality.simps [of jpeg img buf q log])
      from "1.IH" [OF True Some this] obtain ext where
        ext: "log' = (log @ [?e]) @ ext"
          "length ext \<le> nat ((q - 10 - 11) div 10)"
          "\<forall>e \<in> set ext. fst e = Reduction \<and> fst (snd e) = img \<and>
              10 < snd (snd e) \<and> snd (snd e) < q - 10 \<and> (q - 10 - snd (snd e)) mod 10 = 0"
        by blast
      have "log' = log @ (?e # ext)" using ext(1) by simp
      moreover have "length (?e # ext) \<le> nat ((q - 11) div 10)"
        using ext(2) steps by simp
      moreover have "\<forall>e \<in> set (?e # ext). fst e = Reduction \<and> fst (snd e) = img \<and>
              10 < snd (snd e) \<and> snd (snd e) < q \<and> (q - snd (snd e)) mod 10 = 0"
      proof
        fix e assume "e \<in> set (?e # ext)"
        then consider "e = ?e" | "e \<in> set ext" by auto
        then show "fst e = Reduction \<and> fst (snd e) = img \<and>
              10 < snd (snd e) \<and> snd (snd e) < q \<and> (q - snd (snd e)) mod 10 = 0"
        proof cases
          case 1 then show ?thesis using True by simp
        next
          case 2
          with ext(3) have h: "fst e = Reduction \<and> fst (snd e) = img \<and>
              10 < snd (snd e) \<and> snd (snd e) < q - 10 \<and> (q - 10 - snd (snd e)) mod 10 = 0"
            by blast
          then have "(q - snd (snd e)) mod 10 = 0" by (simp add: mod10_step)
          with h show ?thesis by simp
        qed
      qed
      ultimately show ?thesis by blast
    qed
  qed
qed

text \<open>The quality the loop leaves with is the one it started from, or one it encoded at.\<close>

lemma reduce_quality_quality:
  "reduce_quality jpeg img buf q log = (log', Some (b, q')) \<Longrightarrow>
     q' = q \<or> (10 < q' \<and> q' < q \<and> (q - q') mod 10 = 0)"
proof (induction jpeg img buf q log rule: reduce_quality.induct)
  case (1 jpeg img buf q log)
  show ?case
  proof (cases "length buf > maxSizeBytes \<and> q > 20")
    case True
    with "1.prems" obtain b0 where e: "jpeg img (q - 10) = Some b0"
      by (auto simp: reduce_quality.simps [of jpeg img buf q log] split: option.splits)
    with True "1.prems" have r:
      "reduce_quality jpeg img b0 (q - 10) (log @ [(Reduction, img, q - 10)])
         = (log', Some (b, q'))"
      by (simp add: reduce_quality.simps [of jpeg img buf q log])
    from "1.IH" [OF True e r] have
      "q' = q - 10 \<or> (10 < q' \<and> q' < q - 10 \<and> (q - 10 - q') mod 10 = 0)" .
    then show ?thesis using True by (auto simp: mod10_step)
  next
    case False
    with "1.prems" show ?thesis
      by (auto simp: reduce_quality.simps [of jpeg img buf q log])
  qed
qed

text \<open>The two fallback stages add one or two encodes, none of them of the loop.\<close>

lemma fallback_1280_log:
  "\<exists>fb. fst (fallback_1280 jpeg log) = log @ fb \<and> length fb \<le> 2 \<and>
        (\<forall>e \<in> set fb. fst e \<noteq> Reduction)"
proof (cases "jpeg (ResizeTo 1280) 60")
  case None
  then have "fst (fallback_1280 jpeg log) = log @ [(Fallback1280, ResizeTo 1280, 60)]"
    by (simp add: fallback_1280_def)
  then show ?thesis by auto
next
  case (Some b)
  show ?thesis
  proof (cases "length b > maxSizeBytes")
    case True
    with Some have "fst (fallback_1280 jpeg log) =
        log @ [(Fallback1280, ResizeTo 1280, 60), (Fallback800, ResizeTo 800, 50)]"
      by (simp add: fallback_1280_def fallback_800_def split: option.splits)
    then show ?thesis by auto
  next
    case False
    with Some have "fst (fallback_1280 jpeg log) = log @ [(Fallback1280, ResizeTo 1280, 60)]"
      by (simp add: fallback_1280_def)
    then show ?thesis by auto
  qed
qed

text \<open>
  The whole log: the encode at the requested quality, the encodes of the loop, the
  encodes of the fallback stages.
\<close>

lemma compress_log:
  "\<exists>img ext fb. fst (compress jpeg width quality) = (Requested, img, quality) # ext @ fb \<and>
      length ext \<le> nat ((quality - 11) div 10) \<and>
      (\<forall>e \<in> set ext. fst e = Reduction \<and> 10 < snd (snd e) \<and> snd (snd e) < quality \<and>
           (quality - snd (snd e)) mod 10 = 0) \<and>
      length fb \<le> 2 \<and> (\<forall>e \<in> set fb. fst e \<noteq> Reduction)"
  (is "\<exists>img ext fb. ?P img ext fb")
proof -
  define img where "img = (if width > 1920 then ResizeTo 1920 else Original)"
  show ?thesis
  proof (cases "jpeg img quality")
    case None
    then have "fst (compress jpeg width quality) = (Requested, img, quality) # [] @ []"
      by (simp add: compress_def img_def)
    then have "?P img [] []" by simp
    then show ?thesis by (intro exI)
  next
    case (Some b0)
    obtain log r where red:
      "reduce_quality jpeg img b0 quality [(Requested, img, quality)] = (log, r)"
      by (cases "reduce_quality jpeg img b0 quality [(Requested, img, quality)]")
    from reduce_quality_log [OF red] obtain ext where
      ext: "log = [(Requested, img, quality)] @ ext"
        "length ext \<le> nat ((quality - 11) div 10)"
        "\<forall>e \<in> set ext. fst e = Reduction \<and> fst (snd e) = img \<and> 10 < snd (snd e) \<and>
            snd (snd e) < quality \<and> (quality - snd (snd e)) mod 10 = 0"
      by blast
    from ext(3) have ext':
      "\<forall>e \<in> set ext. fst e = Reduction \<and> 10 < snd (snd e) \<and>
            snd (snd e) < quality \<and> (quality - snd (snd e)) mod 10 = 0"
      by simp
    from fallback_1280_log [of jpeg log] obtain fb where
      fb: "fst (fallback_1280 jpeg log) = log @ fb" "length fb \<le> 2"
        "\<forall>e \<in> set fb. fst e \<noteq> Reduction"
      by blast
    have unfolded: "compress jpeg width quality =
        (case r of None \<Rightarrow> (log, None)
         | Some (b1, q1) \<Rightarrow>
             if length b1 > maxSizeBytes then fallback_1280 jpeg log
             else (log, Some \<lparr>finalBuffer = b1, finalQuality = q1,
                              wasResized = (width > 1920)\<rparr>))"
      using Some red by (simp add: compress_def img_def Let_def)
    have "fst (compress jpeg width quality) = log \<or>
          fst (compress jpeg width quality) = fst (fallback_1280 jpeg log)"
      unfolding unfolded by (simp split: option.split prod.split)
    then show ?thesis
    proof
      assume "fst (compress jpeg width quality) = log"
      with ext(1) have "fst (compress jpeg width quality) = (Requested, img, quality) # ext @ []"
        by simp
      with ext(2) ext' have "?P img ext []" by simp
      then show ?thesis by (intro exI)
    next
      assume "fst (compress jpeg width quality) = fst (fallback_1280 jpeg log)"
      with ext(1) fb(1) have
        "fst (compress jpeg width quality) = (Requested, img, quality) # ext @ fb"
        by simp
      with ext(2) ext' fb(2,3) have "?P img ext fb" by simp
      then show ?thesis by (intro exI)
    qed
  qed
qed

text \<open>
  C6 as stated fails: the loop tests the quality before it subtracts 10, so from a
  requested quality of 25 it encodes at 15, and 15 is the quality reported when that
  encode fits.
\<close>

theorem C6_quality_floor_counterexample:
  "compress fits_below_20 0 25 =
     ([(Requested, Original, 25), (Reduction, Original, 15)],
      Some \<lparr>finalBuffer = ''jpeg'', finalQuality = 15, wasResized = False\<rparr>)"
  by (simp add: compress_def fits_below_20_def reduce_quality.simps length_oversize_eq
        maxSizeBytes_def)

text \<open>
  C6, amended. For a requested quality of at least 20, every encode of the
  quality-reduction loop uses a quality of at least 11, and of at least 20 when the
  requested quality is a multiple of 10; the same bounds hold for the quality that is
  finally reported.
\<close>

theorem C6_quality_floor:
  assumes "20 \<le> quality"
  shows "((Reduction, img, q) \<in> set (fst (compress jpeg width quality)) \<longrightarrow>
            11 \<le> q \<and> (quality mod 10 = 0 \<longrightarrow> 20 \<le> q)) \<and>
         (snd (compress jpeg width quality) = Some r \<longrightarrow>
            11 \<le> finalQuality r \<and> (quality mod 10 = 0 \<longrightarrow> 20 \<le> finalQuality r))"
proof (intro conjI impI)
  have floor10: "20 \<le> x" if "10 < x" "(quality - x) mod 10 = 0" "quality mod 10 = 0"
    for x :: int
    using that by presburger
  {
    assume mem: "(Reduction, img, q) \<in> set (fst (compress jpeg width quality))"
    from compress_log [of jpeg width quality] obtain img0 ext fb where
      l: "fst (compress jpeg width quality) = (Requested, img0, quality) # ext @ fb"
        "\<forall>e \<in> set ext. fst e = Reduction \<and> 10 < snd (snd e) \<and> snd (snd e) < quality \<and>
           (quality - snd (snd e)) mod 10 = 0"
        "\<forall>e \<in> set fb. fst e \<noteq> Reduction"
      by blast
    from mem l(1,3) have "(Reduction, img, q) \<in> set ext" by auto
    with l(2) have q: "10 < q \<and> (quality - q) mod 10 = 0" by fastforce
    then show "11 \<le> q" by simp
    show "20 \<le> q" if "quality mod 10 = 0"
      using q that floor10 [of q] by simp
  }
  {
    assume res: "snd (compress jpeg width quality) = Some r"
    define img0 where "img0 = (if width > 1920 then ResizeTo 1920 else Original)"
    from res obtain b0 where b0: "jpeg img0 quality = Some b0"
      by (cases "jpeg img0 quality") (auto simp: compress_def img0_def)
    obtain log rr where red:
      "reduce_quality jpeg img0 b0 quality [(Requested, img0, quality)] = (log, rr)"
      by (cases "reduce_quality jpeg img0 b0 quality [(Requested, img0, quality)]")
    from res b0 red obtain b1 q1 where rr: "rr = Some (b1, q1)"
      by (cases rr) (auto simp: compress_def img0_def)
    from reduce_quality_quality [OF red [unfolded rr]]
    have q1: "q1 = quality \<or> (10 < q1 \<and> (quality - q1) mod 10 = 0)" by blast
    have fq: "finalQuality r = q1 \<or> finalQuality r = 60 \<or> finalQuality r = 50"
      using res b0 red rr
      by (auto simp: compress_def img0_def fallback_1280_def fallback_800_def
            split: if_splits option.splits)
    then show "11 \<le> finalQuality r"
      using q1 assms by auto
    show "20 \<le> finalQuality r" if "quality mod 10 = 0"
      using fq q1 assms that floor10 [of q1] by auto
  }
qed

text \<open>
  From the default quality 80 the loop encodes at 70, 60, ..., 20 and stops at the floor
  of 20, as C6 says of multiples of 10.
\<close>

theorem C6_quality_floor_witness:
  "(20::int) \<le> 30 \<and>
   (Reduction, Original, 20) \<in> set (fst (compress always_oversize 0 30)) \<and>
   (11::int) \<le> 20 \<and> (30::int) mod 10 = 0"
proof -
  have mem: "(Reduction, Original, 20) \<in> set (fst (compress always_oversize 0 30))"
    by (simp add: compress_def fallback_1280_def fallback_800_def always_oversize_def
          reduce_quality.simps length_oversize)
  from C6_quality_floor [of 30 Original 20 always_oversize 0] mem show ?thesis by simp
qed

text \<open>
  C7 as stated fails: from a requested quality of 100 the loop alone encodes eight times
  (90, 80, ..., 20), so a bitmap that never fits costs 11 encodes.
\<close>

theorem C7_encode_bound_counterexample:
  "length (fst (compress always_oversize 0 100)) = 11"
  by (simp add: compress_def fallback_1280_def fallback_800_def always_oversize_def
        reduce_quality.simps length_oversize)

text \<open>
  C7, amended. The pipeline always terminates (\<open>compress\<close> is a total function: the loop
  has a termination proof), after at most 11 encodes for a requested quality of at most
  100, and after at most 9 for a requested quality of at most 80, the default.
\<close>

theorem C7_encode_bound:
  "quality \<le> 100 \<Longrightarrow>
     length (fst (compress jpeg width quality)) \<le> 11 \<and>
     (quality \<le> 80 \<longrightarrow> length (fst (compress jpeg width quality)) \<le> 9)"
proof -
  from compress_log [of jpeg width quality] obtain img ext fb where
    l: "fst (compress jpeg width quality) = (Requested, img, quality) # ext @ fb"
      "length ext \<le> nat ((quality - 11) div 10)" "length fb \<le> 2"
    by blast
  have n: "length (fst (compress jpeg width quality)) \<le> 3 + nat ((quality - 11) div 10)"
    using l by simp
  assume "quality \<le> 100"
  with n have "length (fst (compress jpeg width quality)) \<le> 11" by linarith
  moreover have "length (fst (compress jpeg width quality)) \<le> 9" if "quality \<le> 80"
    using n that by linarith
  ultimately show ?thesis by blast
qed

theorem C7_encode_bound_witness:
  "(80::int) \<le> 100 \<and> (80::int) \<le> 80 \<and> length (fst (compress always_oversize 0 80)) = 9"
proof -
  have "length (fst (compress always_oversize 0 80)) = 9"
    by (simp add: compress_def fallback_1280_def fallback_800_def always_oversize_def
          reduce_quality.simps length_oversize)
  with C7_encode_bound [of 80 always_oversize 0] show ?thesis by simp
qed

section \<open>Properties of the interpolated text\<close>

lemma of_char_digit: "(d::nat) < 10 \<Longrightarrow> (of_char (char_of (48 + d)) :: nat) = 48 + d"
  by (simp add: of_char_of)

lemma is_digit_char_of: "(d::nat) < 10 \<Longrightarrow> is_digit (char_of (48 + d))"
  by (simp add: is_digit_def of_char_digit)

lemma show_nat_digits: "list_all is_digit (show_nat n)"
proof (induction n rule: show_nat.induct)
  case (1 n)
  show ?case
  proof (cases "n < 10")
    case True
    then show ?thesis by (simp add: show_nat.simps [of n] is_digit_char_of)
  next
    case False
    with 1 show ?thesis by (simp add: show_nat.simps [of n] is_digit_char_of)
  qed
qed

lemma show_nat_nonempty: "show_nat n \<noteq> []"
  by (simp add: show_nat.simps [of n])

lemma parse_nat_snoc: "parse_nat (s @ [c]) = 10 * parse_nat s + ((of_char c :: nat) - 48)"
  by (simp add: parse_nat_def)

lemma parse_nat_show_nat: "parse_nat (show_nat n) = n"
proof (induction n rule: show_nat.induct)
  case (1 n)
  show ?case
  proof (cases "n < 10")
    case True
    then show ?thesis by (simp add: show_nat.simps [of n] parse_nat_def of_char_digit)
  next
    case False
    then have "parse_nat (show_nat n) = 10 * parse_nat (show_nat (n div 10)) + n mod 10"
      by (simp add: show_nat.simps [of n] parse_nat_snoc of_char_digit)
    with 1 False show ?thesis by simp
  qed
qed

text \<open>PowerShell reads the digits JavaScript prints back as the same integer.\<close>

lemma ps_int_literal_show_int: "ps_int_literal (show_int i) = Some i"
proof (cases "i < 0")
  case False
  then show ?thesis
    by (simp add: ps_int_literal_def show_int_def show_nat_digits show_nat_nonempty
          parse_nat_show_nat)
next
  case True
  have "\<not> is_digit (CHR ''-'')" by (simp add: is_digit_def)
  with True show ?thesis
    by (simp add: ps_int_literal_def show_int_def show_nat_digits show_nat_nonempty
          parse_nat_show_nat)
qed

lemma js_number_string_small: "\<bar>i\<bar> < 10 ^ 21 \<Longrightarrow> js_number_string env i = show_int i"
  by (simp add: js_number_string_def)

lemma ps_bool_provided: "ps_bool (psWindowIndexProvided a) = Some (windowIndexProvided a)"
  by (simp add: ps_bool_def psWindowIndexProvided_def)

text \<open>
  The escape of lines 180-181 is read back as the text it was applied to, provided the
  text holds nothing else that is special between double quotes.
\<close>

lemma dq_value_escaped:
  "literal_text s \<Longrightarrow> dq_value (replace_char (CHR 0x22) (dq @ dq) s) = Some s"
  by (induction s) (simp_all add: replace_char_def dq_def literal_text_def)

lemma window_query_title:
  assumes "literal_text (or_empty (arg_windowTitle a))" and "\<bar>windowIndex_of a\<bar> < 10 ^ 21"
  shows "window_query (escapedWindowTitle a) (psWindowIndexProvided a)
           (js_number_string env (windowIndex_of a)) =
         Some (or_empty (arg_windowTitle a), windowIndexProvided a, windowIndex_of a)"
  using assms
  by (simp add: window_query_def escapedWindowTitle_def dq_value_escaped ps_bool_provided
        js_number_string_small ps_int_literal_show_int)






section \<open>The environment of the concrete runs\<close>

lemma env0_fields:
  "cwd env0 = ''/home/user/project''"
  "path_join env0 = slash_join"
  "fs_mkdir env0 = (\<lambda>p. True)"
  "fs_access env0 = (\<lambda>p. True)"
  "base64_decode env0 = (\<lambda>s. s)"
  "base64_encode env0 = (\<lambda>b. b)"
  "metadata_width env0 = (\<lambda>b. if length b < 100 then Some 2560 else Some 800)"
  "jpeg_encoder env0 = (\<lambda>b. always_oversize)"
  by (simp_all add: env0_def)

section \<open>Properties of the window search\<close>







section \<open>Properties of the Direct-mode response\<close>

text \<open>
  The image of a Direct-mode response is the final buffer of \<open>compress\<close>, run on the
  decoded output of the script at the requested quality.
\<close>

lemma direct_return_image:
  assumes "direct_return env a stdout = Inr response"
  shows "\<exists>markerIndex width log r text.
           indexOf stdout ''BASE64:'' = Some markerIndex \<and>
           metadata_width env (base64_decode env (extract_base64 stdout markerIndex)) = Some width \<and>
           compress (jpeg_encoder env (base64_decode env (extract_base64 stdout markerIndex)))
             width (quality_of a) = (log, Some r) \<and>
           response = [TextContent text,
                       ImageContent (base64_encode env (finalBuffer r)) ''image/jpeg'']"
proof -
  from assms obtain i where i: "indexOf stdout ''BASE64:'' = Some i"
    by (cases "indexOf stdout ''BASE64:''") (simp_all add: direct_return_def)
  let ?png = "base64_decode env (extract_base64 stdout i)"
  from assms i obtain w where w: "metadata_width env ?png = Some w"
    by (cases "metadata_width env ?png") (simp_all add: direct_return_def)
  obtain log res where c: "compress (jpeg_encoder env ?png) w (quality_of a) = (log, res)"
    by (cases "compress (jpeg_encoder env ?png) w (quality_of a)")
  from assms i w c obtain r where r: "res = Some r"
    by (cases res) (simp_all add: direct_return_def)
  from assms i w c r have
    "\<exists>text. response = [TextContent text,
        ImageContent (base64_encode env (finalBuffer r)) ''image/jpeg'']"
    by (auto simp: direct_return_def split: if_splits option.splits)
  with i w c r show ?thesis by blast
qed

text \<open>
  Whatever \<open>compress\<close> returns fits the budget, or it is the output of the last encode
  of the run, the one of the final fallback stage.
\<close>

lemma compress_budget_or_final_fallback:
  "compress jpeg width quality = (log, Some r) \<Longrightarrow>
     length (finalBuffer r) \<le> 950 * 1024 \<or>
     (last log = (Fallback800, ResizeTo 800, 50) \<and>
      jpeg (ResizeTo 800) 50 = Some (finalBuffer r) \<and> finalQuality r = 50)"
  unfolding compress_def fallback_1280_def fallback_800_def Let_def
  by (auto split: option.splits prod.splits if_splits dest!: reduce_quality_fits
        simp: maxSizeBytes_def)

lemma take_screenshot_direct:
  assumes "returnDirect_of a" and "take_screenshot env exec a = (ops, Inr response)"
  shows "direct_return env a (fst (exec (psScript env a))) = Inr response"
proof (cases "resolve_destination env a")
  case (Pair ops0 d)
  obtain out err where e: "exec (psScript env a) = (out, err)"
    by (cases "exec (psScript env a)")
  from assms(2) Pair obtain dest where d: "d = Some dest"
    by (cases d) (simp_all add: take_screenshot_def)
  from assms(2) Pair d e have s: "sentinel_failure (out @ err) = None"
    by (cases "sentinel_failure (out @ err)") (simp_all add: take_screenshot_def)
  from assms Pair d e s show ?thesis
    by (simp add: take_screenshot_def complete_def)
qed

text \<open>
  C1. The image of a Direct-mode response is the final buffer of the compression, run on
  the bitmap decoded from the script's output. It is at most 950 KiB (950 * 1024 bytes)
  long, or it is the output of the final fallback stage: the last encode of the run, of
  the original bitmap resized to width 800 at quality 50, returned whatever its size.
\<close>

theorem C1_budget_or_final_fallback:
  assumes "returnDirect_of a" and "take_screenshot env exec a = (ops, Inr response)"
  shows "\<exists>markerIndex png width log r text.
           indexOf (fst (exec (psScript env a))) ''BASE64:'' = Some markerIndex \<and>
           png = base64_decode env (extract_base64 (fst (exec (psScript env a))) markerIndex) \<and>
           metadata_width env png = Some width \<and>
           compress (jpeg_encoder env png) width (quality_of a) = (log, Some r) \<and>
           response = [TextContent text,
                       ImageContent (base64_encode env (finalBuffer r)) ''image/jpeg''] \<and>
           (length (finalBuffer r) \<le> 950 * 1024 \<or>
            (last log = (Fallback800, ResizeTo 800, 50) \<and>
             jpeg_encoder env png (ResizeTo 800) 50 = Some (finalBuffer r)))"
proof -
  let ?stdout = "fst (exec (psScript env a))"
  from take_screenshot_direct [OF assms]
  have "direct_return env a ?stdout = Inr response" .
  from direct_return_image [OF this] obtain i width log r msg where
    i: "indexOf ?stdout ''BASE64:'' = Some i" and
    w: "metadata_width env (base64_decode env (extract_base64 ?stdout i)) = Some width" and
    c: "compress (jpeg_encoder env (base64_decode env (extract_base64 ?stdout i)))
          width (quality_of a) = (log, Some r)" and
    r: "response = [TextContent msg,
          ImageContent (base64_encode env (finalBuffer r)) ''image/jpeg'']"
    by blast
  from compress_budget_or_final_fallback [OF c]
  have "length (finalBuffer r) \<le> 950 * 1024 \<or>
        (last log = (Fallback800, ResizeTo 800, 50) \<and>
         jpeg_encoder env (base64_decode env (extract_base64 ?stdout i)) (ResizeTo 800) 50 =
           Some (finalBuffer r))"
    by blast
  with i w c r show ?thesis by blast
qed

lemma compress_always_oversize:
  "compress always_oversize 2560 80 =
     ([(Requested, ResizeTo 1920, 80), (Reduction, ResizeTo 1920, 70),
       (Reduction, ResizeTo 1920, 60), (Reduction, ResizeTo 1920, 50),
       (Reduction, ResizeTo 1920, 40), (Reduction, ResizeTo 1920, 30),
       (Reduction, ResizeTo 1920, 20), (Fallback1280, ResizeTo 1280, 60),
       (Fallback800, ResizeTo 800, 50)],
      Some \<lparr>finalBuffer = oversize, finalQuality = 50, wasResized = True\<rparr>)"
  by (simp add: compress_def Let_def fallback_1280_def fallback_800_def always_oversize_def
        reduce_quality.simps length_oversize)

lemma statusText_oversize:
  "statusText env0 \<lparr>finalBuffer = oversize, finalQuality = 50, wasResized = True\<rparr> =
     ''Screenshot captured successfully (950KB, JPEG quality: 50%)''"
proof -
  have k0: "(972801 + 512) div 1024 = (950::nat)" by simp
  have k: "show_nat 950 = ''950''" by code_simp
  have p: "js_number_string env0 50 = ''50''" by code_simp
  show ?thesis
    by (simp add: statusText_def length_oversize_eq k0 k p)
qed

lemma direct_return_png:
  "direct_return env0 no_args ''BASE64:iVBORw0KGgo='' =
     Inr [TextContent
            ''Screenshot captured successfully (950KB, JPEG quality: 50%) - Resized to 800px width'',
          ImageContent oversize ''image/jpeg'']"
proof -
  have i: "indexOf ''BASE64:iVBORw0KGgo='' ''BASE64:'' = Some 0" by code_simp
  have x: "extract_base64 ''BASE64:iVBORw0KGgo='' 0 = ''iVBORw0KGgo=''" by code_simp
  have q: "quality_of no_args = 80" by (simp add: quality_of_def no_args_def)
  have w: "show_nat 800 = ''800''" by code_simp
  have m: "metadata_width env0 ''iVBORw0KGgo='' = Some 2560"
    "metadata_width env0 oversize = Some 800"
    by (simp_all add: env0_fields length_oversize_eq)
  show ?thesis
    by (simp add: direct_return_def i x Let_def q env0_fields(5,6,8) m
          compress_always_oversize statusText_oversize w)
qed

text \<open>
  A bitmap 2560 pixels wide whose every encoding is too large, at the default quality 80:
  the image of the response is the output of the final fallback stage, larger than 950
  KiB, and the status text reports quality 50 and width 800.
\<close>

theorem C1_budget_or_final_fallback_witness:
  "returnDirect_of no_args \<and>
   take_screenshot env0 exec_png no_args =
     ([Mkdir ''/home/user/project/screenshots''],
      Inr [TextContent
             ''Screenshot captured successfully (950KB, JPEG quality: 50%) - Resized to 800px width'',
           ImageContent oversize ''image/jpeg'']) \<and>
   950 * 1024 < length oversize \<and>
   jpeg_encoder env0 ''iVBORw0KGgo='' (ResizeTo 800) 50 = Some oversize"
proof -
  have d: "returnDirect_of no_args" by (simp add: returnDirect_of_def no_args_def)
  have dest: "resolve_destination env0 no_args =
      ([Mkdir ''/home/user/project/screenshots''],
       Some \<lparr>screenshotsDir = ''/home/user/project/screenshots'', customFolder = None\<rparr>)"
    by (simp add: resolve_destination_def Let_def no_args_def truthy_def env0_fields)
  have scan: "sentinel_failure (''BASE64:iVBORw0KGgo='' @ []) = None" by code_simp
  have run: "take_screenshot env0 exec_png no_args =
     ([Mkdir ''/home/user/project/screenshots''],
      Inr [TextContent
             ''Screenshot captured successfully (950KB, JPEG quality: 50%) - Resized to 800px width'',
           ImageContent oversize ''image/jpeg''])"
    using scan
    by (simp add: take_screenshot_def dest exec_png_def complete_def d direct_return_png)
  have big: "950 * 1024 < length oversize"
    by (simp add: length_oversize_eq)
  have i: "indexOf ''BASE64:iVBORw0KGgo='' ''BASE64:'' = Some 0" by code_simp
  have x: "extract_base64 ''BASE64:iVBORw0KGgo='' 0 = ''iVBORw0KGgo=''" by code_simp
  have "jpeg_encoder env0 ''iVBORw0KGgo='' (ResizeTo 800) 50 = Some oversize"
    using C1_budget_or_final_fallback [OF d run]
  proof (elim exE conjE)
    fix markerIndex png width log r msg
    assume m: "indexOf (fst (exec_png (psScript env0 no_args))) ''BASE64:'' = Some markerIndex"
      and g: "png = base64_decode env0
                (extract_base64 (fst (exec_png (psScript env0 no_args))) markerIndex)"
      and v: "[TextContent
                ''Screenshot captured successfully (950KB, JPEG quality: 50%) - Resized to 800px width'',
               ImageContent oversize ''image/jpeg''] =
              [TextContent msg,
               ImageContent (base64_encode env0 (finalBuffer r)) ''image/jpeg'']"
      and f: "length (finalBuffer r) \<le> 950 * 1024 \<or>
              last log = (Fallback800, ResizeTo 800, 50) \<and>
              jpeg_encoder env0 png (ResizeTo 800) 50 = Some (finalBuffer r)"
    from m have "markerIndex = 0" by (simp add: exec_png_def i)
    with g have png: "png = ''iVBORw0KGgo=''" by (simp add: exec_png_def x env0_fields(5))
    from v have buf: "finalBuffer r = oversize" by (simp add: env0_fields(6))
    from f have "jpeg_encoder env0 png (ResizeTo 800) 50 = Some (finalBuffer r)"
      unfolding buf length_oversize_eq by simp
    then show ?thesis by (simp only: png buf)
  qed
  with d run big show ?thesis by simp
qed

section \<open>Properties of the handler's file system calls\<close>







section \<open>The search by a process name that holds \<open>.exe\<close> inside\<close>

text \<open>
  C9 at the request \<open>{processName: "my.exe.helper"}\<close>, on a host whose only window
  belongs to the process \<open>my.exe.helper\<close>. Line 334 removes \<open>.exe\<close> wherever it
  stands, under the comment \<open># Strip .exe if provided\<close>: the script looks for
  \<open>*my.helper*\<close>, which the process name does not match, and reports that no window of
  the process was found. The process cannot be found by its own name.
\<close>

theorem C9_strip_exe_failing_input:
  "ProcessName helper_window = ''my.exe.helper'' \<and>
   GetVisibleWindows helper_host = [helper_window] \<and>
   searchProcess ''my.exe.helper'' = ''my.helper'' \<and>
   process_matches helper_host ''my.exe.helper'' = [] \<and>
   run_bridge helper_host (plan_of env0 helper_by_process) ReturnBase64 =
     ExitWith ''PROCESS_NOT_FOUND:my.exe.helper''"
proof -
  have w: "ProcessName helper_window = ''my.exe.helper''"
    "GetVisibleWindows helper_host = [helper_window]"
    by (simp_all add: helper_window_def helper_host_def)
  have s: "searchProcess ''my.exe.helper'' = ''my.helper''"
    by (simp add: searchProcess_def)
  have m: "process_matches helper_host ''my.exe.helper'' = []"
    by code_simp
  have p: "plan_of env0 helper_by_process = ProcessScript ''my.exe.helper'' ''$false'' ''1''"
    by code_simp
  have q: "window_query ''my.exe.helper'' ''$false'' ''1'' = Some (''my.exe.helper'', False, 1)"
    by code_simp
  have "run_bridge helper_host (plan_of env0 helper_by_process) ReturnBase64 =
     ExitWith ''PROCESS_NOT_FOUND:my.exe.helper''"
    by (simp add: p run_bridge_def capture_result_of_def q process_search_def m)
  with w s m show ?thesis by simp
qed

section \<open>The monitor number out of range\<close>

text \<open>
  C8 at the request \<open>{monitor: 3}\<close>, on a host with two screens. The script sorts the
  screens and throws \<open>Monitor 3 not found. Available monitors: 1 to 2\<close>, the error that
  names the range; its \<open>catch\<close> block writes the message to standard output (line 480).
  The handler looks for \<open>ERROR:\<close> in standard error only (lines 651-665): in Direct
  mode the request fails with \<open>Failed to generate base64 output from PowerShell\<close>, which
  names no range, and in File mode, when a file of the requested name is left from an
  earlier capture, the request reports success.
\<close>

theorem C8_monitor_out_of_range_failing_input:
  "sortedScreens host0 = [left_screen, right_screen] \<and>
   run_bridge host0 (plan_of env0 (monitor_number 3)) ReturnBase64 =
     Caught ''Monitor 3 not found. Available monitors: 1 to 2'' \<and>
   take_screenshot env0 exec_monitor_3_of_2 (monitor_number 3) =
     ([Mkdir ''/home/user/project/screenshots''], Inl NoBase64Output) \<and>
   take_screenshot env0 exec_monitor_3_of_2
       ((monitor_number 3)\<lparr>arg_returnDirect := Some False\<rparr>) =
     ([Mkdir ''/home/user/project/screenshots'',
       Access ''/home/user/project/screenshots/screenshot.png''],
      Inr [TextContent ''Screenshot saved successfully to: screenshots/screenshot.png''])"
proof -
  let ?out = "''0'' @ CRLF @ ''ERROR: Monitor 3 not found. Available monitors: 1 to 2'' @ CRLF"
  have srt: "sortedScreens host0 = [left_screen, right_screen]"
    by (simp add: sortedScreens_def host0_def left_screen_def right_screen_def)
  have p: "plan_of env0 (monitor_number 3) = MonitorScript ''3''"
    by code_simp
  have q: "monitor_query ''3'' = Some (''3'', ''3'')"
    by code_simp
  have t: "\<not> ps_eq ''3'' ''primary''" "matches_digits ''3''" "digits_of ''3'' = ''3''"
    "parse_nat ''3'' = 3" "show_nat (Suc (Suc 0)) = ''2''"
    by code_simp+
  have s: "select_monitor host0 ''3'' ''3'' =
      Inl ''Monitor 3 not found. Available monitors: 1 to 2''"
    using t(5) by (simp add: select_monitor_def t(1-4) srt)
  have run: "run_bridge host0 (plan_of env0 (monitor_number 3)) ReturnBase64 =
     Caught ''Monitor 3 not found. Available monitors: 1 to 2''"
    by (simp add: p run_bridge_def capture_result_of_def q s)
  have scan: "sentinel_failure (?out @ []) = None" by code_simp
  have i: "indexOf ?out ''BASE64:'' = None" by code_simp
  have e: "hasRealError [] = False" by (simp add: hasRealError_def)
  have d: "returnDirect_of (monitor_number 3)"
    "\<not> returnDirect_of ((monitor_number 3)\<lparr>arg_returnDirect := Some False\<rparr>)"
    by (simp_all add: returnDirect_of_def monitor_number_def no_args_def)
  have dest: "resolve_destination env0 (monitor_number 3) =
      ([Mkdir ''/home/user/project/screenshots''],
       Some \<lparr>screenshotsDir = ''/home/user/project/screenshots'', customFolder = None\<rparr>)"
    "resolve_destination env0 ((monitor_number 3)\<lparr>arg_returnDirect := Some False\<rparr>) =
      ([Mkdir ''/home/user/project/screenshots''],
       Some \<lparr>screenshotsDir = ''/home/user/project/screenshots'', customFolder = None\<rparr>)"
    by (simp_all add: resolve_destination_def Let_def monitor_number_def no_args_def truthy_def
          env0_fields)
  have direct: "take_screenshot env0 exec_monitor_3_of_2 (monitor_number 3) =
     ([Mkdir ''/home/user/project/screenshots''], Inl NoBase64Output)"
    using scan i
    by (simp add: take_screenshot_def dest exec_monitor_3_of_2_def complete_def d
          direct_return_def)
  have f: "filename_of ((monitor_number 3)\<lparr>arg_returnDirect := Some False\<rparr>) =
      ''screenshot.png''"
    by (simp add: filename_of_def monitor_number_def no_args_def)
  have saved: "take_screenshot env0 exec_monitor_3_of_2
       ((monitor_number 3)\<lparr>arg_returnDirect := Some False\<rparr>) =
     ([Mkdir ''/home/user/project/screenshots'',
       Access ''/home/user/project/screenshots/screenshot.png''],
      Inr [TextContent ''Screenshot saved successfully to: screenshots/screenshot.png''])"
    using scan
    by (simp add: take_screenshot_def dest exec_monitor_3_of_2_def complete_def d e
          file_return_def Let_def successPath_def f truthy_def env0_fields)
  from srt run direct saved show ?thesis by simp
qed

section \<open>Properties of the script the handler builds\<close>

text \<open>
  C10 as stated fails for a request whose \<open>windowTitle\<close> is the empty string: the
  handler tests the title for truth (lines 175 and 291), the empty string is false, and
  the script is built from \<open>processName\<close>.
\<close>

theorem C10_title_only_counterexample:
  "arg_windowTitle empty_title_notepad = Some [] \<and>
   arg_processName empty_title_notepad = Some ''notepad'' \<and>
   plan_of env0 empty_title_notepad = ProcessScript ''notepad'' ''$false'' ''1'' \<and>
   searchLogic env0 empty_title_notepad = process_searchLogic ''notepad'' ''$false'' ''1''"
proof -
  have "js_number_string env0 1 = ''1''" by code_simp
  then show ?thesis
    by (simp add: empty_title_notepad_def no_args_def plan_of_def searchLogic_def truthy_def
          or_empty_def windowIndexProvided_def windowIndex_of_def escapedProcessName_def
          psWindowIndexProvided_def replace_char_def)
qed

text \<open>
  C10, amended. For every request whose \<open>windowTitle\<close> is a non-empty string, the
  search logic of the generated script is the title search, the script searches by that
  title, and neither the script nor what it does depends on \<open>processName\<close>: replacing
  \<open>processName\<close> by any other value, or removing it, leaves both unchanged. (That the
  script searches by the title as the caller wrote it is stated for a title that
  PowerShell takes as it stands and a window index that JavaScript prints in digits.)
\<close>

theorem C10_title_only:
  assumes "truthy (arg_windowTitle a)"
  shows "searchLogic env a =
           title_searchLogic (escapedWindowTitle a) (psWindowIndexProvided a)
             (js_number_string env (windowIndex_of a)) \<and>
         plan_of env a =
           TitleScript (escapedWindowTitle a) (psWindowIndexProvided a)
             (js_number_string env (windowIndex_of a)) \<and>
         (literal_text (or_empty (arg_windowTitle a)) \<and> \<bar>windowIndex_of a\<bar> < 10 ^ 21 \<longrightarrow>
            run_bridge host (plan_of env a) action =
              (case capture_result_of action of
                 None \<Rightarrow> Unmodelled
               | Some result \<Rightarrow>
                   (case title_search host (or_empty (arg_windowTitle a))
                           (windowIndexProvided a) (windowIndex_of a) of
                      Inl line \<Rightarrow> ExitWith line
                    | Inr found \<Rightarrow> Captured (WindowTarget found) result))) \<and>
         psScript env (a\<lparr>arg_processName := p\<rparr>) = psScript env a \<and>
         plan_of env (a\<lparr>arg_processName := p\<rparr>) = plan_of env a"
proof -
  have frame:
    "windowsPath env (a\<lparr>arg_processName := p\<rparr>) = windowsPath env a"
    "returnDirect_of (a\<lparr>arg_processName := p\<rparr>) = returnDirect_of a"
    "escapedWindowTitle (a\<lparr>arg_processName := p\<rparr>) = escapedWindowTitle a"
    "psWindowIndexProvided (a\<lparr>arg_processName := p\<rparr>) = psWindowIndexProvided a"
    "windowIndex_of (a\<lparr>arg_processName := p\<rparr>) = windowIndex_of a"
    "windowIndexProvided (a\<lparr>arg_processName := p\<rparr>) = windowIndexProvided a"
    by (simp_all add: windowsPath_def filename_of_def returnDirect_of_def
          escapedWindowTitle_def psWindowIndexProvided_def windowIndex_of_def
          windowIndexProvided_def)
  have code: "captureCode env (a\<lparr>arg_processName := p\<rparr>) = captureCode env a"
    by (simp add: captureCode_def frame)
  have logic: "searchLogic env (a\<lparr>arg_processName := p\<rparr>) = searchLogic env a"
    using assms by (simp add: searchLogic_def frame)
  have script: "psScript env (a\<lparr>arg_processName := p\<rparr>) = psScript env a"
    using assms by (simp add: psScript_def code logic)
  have same: "plan_of env (a\<lparr>arg_processName := p\<rparr>) = plan_of env a"
    using assms by (simp add: plan_of_def frame)
  have title: "searchLogic env a =
           title_searchLogic (escapedWindowTitle a) (psWindowIndexProvided a)
             (js_number_string env (windowIndex_of a))"
    using assms by (simp add: searchLogic_def)
  have plan: "plan_of env a =
           TitleScript (escapedWindowTitle a) (psWindowIndexProvided a)
             (js_number_string env (windowIndex_of a))"
    using assms by (simp add: plan_of_def)
  have run: "run_bridge host (plan_of env a) action =
              (case capture_result_of action of
                 None \<Rightarrow> Unmodelled
               | Some result \<Rightarrow>
                   (case title_search host (or_empty (arg_windowTitle a))
                           (windowIndexProvided a) (windowIndex_of a) of
                      Inl line \<Rightarrow> ExitWith line
                    | Inr found \<Rightarrow> Captured (WindowTarget found) result))"
    if "literal_text (or_empty (arg_windowTitle a)) \<and> \<bar>windowIndex_of a\<bar> < 10 ^ 21"
    using window_query_title [of a env] that
    by (simp add: plan run_bridge_def split: option.split)
  from title plan run script same show ?thesis by blast
qed

text \<open>
  A request for the title \<open>Notepad\<close> and the process \<open>mail\<close>: the script searches by
  the title, finds the two Notepad windows and asks which one is meant.
\<close>

theorem C10_title_only_witness:
  "truthy (arg_windowTitle title_and_process) \<and>
   arg_processName title_and_process = Some ''mail'' \<and>
   plan_of env0 title_and_process = TitleScript ''Notepad'' ''$false'' ''1'' \<and>
   literal_text ''Notepad'' \<and>
   run_bridge host0 (plan_of env0 title_and_process) ReturnBase64 =
     ExitWith (''MULTIPLE_WINDOWS_FOUND:Notepad:'' @
               ''1. notes.txt - Notepad (notepad.exe)'' @ [LF] @
               ''2. todo.txt - Notepad (notepad.exe)'' @ [LF] @
               ''3. Cancel capture'') \<and>
   psScript env0 (title_and_process\<lparr>arg_processName := Some ''notepad''\<rparr>) =
     psScript env0 title_and_process"
proof -
  have t: "truthy (arg_windowTitle title_and_process)"
    by (simp add: title_and_process_def no_args_def truthy_def)
  have v: "or_empty (arg_windowTitle title_and_process) = ''Notepad''"
    "windowIndexProvided title_and_process = False"
    "windowIndex_of title_and_process = 1"
    "arg_processName title_and_process = Some ''mail''"
    by (simp_all add: title_and_process_def no_args_def or_empty_def
          windowIndexProvided_def windowIndex_of_def)
  have e: "escapedWindowTitle title_and_process = ''Notepad''"
    "psWindowIndexProvided title_and_process = ''$false''"
    "js_number_string env0 1 = ''1''"
    by code_simp+
  have l: "literal_text ''Notepad''" by code_simp
  have c: "capture_result_of ReturnBase64 = Some Base64Output"
    by (simp add: capture_result_of_def)
  have s: "title_search host0 ''Notepad'' False 1 =
     Inl (''MULTIPLE_WINDOWS_FOUND:Notepad:'' @
          ''1. notes.txt - Notepad (notepad.exe)'' @ [LF] @
          ''2. todo.txt - Notepad (notepad.exe)'' @ [LF] @
          ''3. Cancel capture'')"
    by code_simp
  note th = C10_title_only [OF t, of env0 host0 ReturnBase64 "Some ''notepad''"]
  from th [THEN conjunct2, THEN conjunct1]
  have plan: "plan_of env0 title_and_process = TitleScript ''Notepad'' ''$false'' ''1''"
    by (simp only: e v)
  from th [THEN conjunct2, THEN conjunct2, THEN conjunct1] v l
  have run: "run_bridge host0 (plan_of env0 title_and_process) ReturnBase64 =
     ExitWith (''MULTIPLE_WINDOWS_FOUND:Notepad:'' @
               ''1. notes.txt - Notepad (notepad.exe)'' @ [LF] @
               ''2. todo.txt - Notepad (notepad.exe)'' @ [LF] @
               ''3. Cancel capture'')"
    by (simp add: c s)
  from th [THEN conjunct2, THEN conjunct2, THEN conjunct2, THEN conjunct1]
  have same: "psScript env0 (title_and_process\<lparr>arg_processName := Some ''notepad''\<rparr>) =
     psScript env0 title_and_process" .
  from t v(4) plan l run same show ?thesis by (intro conjI)
qed

section \<open>The save path and the interpolated strings at concrete requests\<close>

lemma custom_folder_file_fields:
  "arg_folder custom_folder_file = Some ''/mnt/c/shots''"
  "arg_filename custom_folder_file = Some ''a.png''"
  "arg_returnDirect custom_folder_file = Some False"
  by (simp_all add: custom_folder_file_def no_args_def)

lemma windowsFolder_shots: "windowsFolder env0 ''/mnt/c/shots'' = ''C:'' @ bs @ ''shots''"
  by (simp add: windowsFolder_def startsWith_def charAt_def backslashes_def replace_char_def
        toUpper_def is_lower_def bs_def char_of_def bit_simps)

text \<open>
  C3 at the File-mode request \<open>{folder: "/mnt/c/shots", filename: "a.png", returnDirect:
  false}\<close>. The path the script saves to is the folder itself, \<open>C:\\shots\<close> between
  the quotes, without the file name (line 151 takes \<open>customFolder\<close> alone); the handler
  then looks for \<open>/mnt/c/shots/a.png\<close> and, when a file of that name exists, reports
  \<open>C:/shots/a.png\<close>.
\<close>

theorem C3_custom_folder_save_path:
  "windowsPath env0 custom_folder_file = ''C:'' @ bs @ ''shots'' \<and>
   capture_action_of env0 custom_folder_file = SaveToFile (''C:'' @ bs @ bs @ ''shots'') \<and>
   take_screenshot env0 exec_silent custom_folder_file =
     ([Access ''/mnt/c/shots/a.png''],
      Inr [TextContent ''Screenshot saved successfully to: C:/shots/a.png''])"
proof -
  have t: "truthy (arg_folder custom_folder_file)"
    "or_empty (arg_folder custom_folder_file) = ''/mnt/c/shots''"
    "filename_of custom_folder_file = ''a.png''"
    "\<not> returnDirect_of custom_folder_file"
    by (simp_all add: custom_folder_file_fields truthy_def or_empty_def filename_of_def
          returnDirect_of_def)
  have wp: "windowsPath env0 custom_folder_file = ''C:'' @ bs @ ''shots''"
    by (simp add: windowsPath_def t windowsFolder_shots)
  have act: "capture_action_of env0 custom_folder_file =
      SaveToFile (''C:'' @ bs @ bs @ ''shots'')"
    by (simp add: capture_action_of_def t wp windowsPathEscaped_def replace_char_def bs_def)
  have dest: "resolve_destination env0 custom_folder_file =
      ([], Some \<lparr>screenshotsDir = ''/mnt/c/shots'',
                 customFolder = Some (''C:'' @ bs @ ''shots'')\<rparr>)"
    by (simp add: resolve_destination_def t windowsFolder_shots)
  have scan: "sentinel_failure ([] @ []) = None"
    by (simp add: sentinel_failure_def js_includes_def)
  have fin: "complete env0 custom_folder_file
       \<lparr>screenshotsDir = ''/mnt/c/shots'', customFolder = Some (''C:'' @ bs @ ''shots'')\<rparr> [] [] =
     ([Access ''/mnt/c/shots/a.png''],
      Inr [TextContent ''Screenshot saved successfully to: C:/shots/a.png''])"
    by (simp add: complete_def t hasRealError_def file_return_def successPath_def Let_def
          truthy_def or_empty_def env0_def replace_char_def bs_def)
  have "take_screenshot env0 exec_silent custom_folder_file =
     ([Access ''/mnt/c/shots/a.png''],
      Inr [TextContent ''Screenshot saved successfully to: C:/shots/a.png''])"
    using dest scan fin by (simp add: take_screenshot_def exec_silent_def)
  with wp act show ?thesis by simp
qed

lemma monitor_injection_script:
  "sublist
     (''if ('' @ sq @ ''1'' @ sq @ '' -or (calc.exe) -or '' @ sq @ ''1'' @ sq @
      '' -eq '' @ sq @ ''primary'' @ sq @ '') {'')
     (psScript env0 monitor_injection)"
proof -
  have "psScript env0 monitor_injection =
      monitor_psScript (''1'' @ sq @ '' -or (calc.exe) -or '' @ sq @ ''1'') direct_captureCode"
    by (simp add: psScript_def monitor_injection_def no_args_def truthy_def monitor_of_def
          template_string_def captureCode_def returnDirect_of_def)
  then show ?thesis
    by (simp add: monitor_psScript_def sq_def sublist_Cons_right)
qed

text \<open>
  C2 at three requests. The escape of line 180 doubles double quotes only, so the title
  \<open>$(calc.exe)\<close> reaches the script unchanged, between double quotes, where PowerShell
  evaluates \<open>$(...)\<close>. The path is written between single quotes with its backslashes
  doubled and its single quotes untouched, so a file name with a single quote ends the
  literal. The monitor is written between single quotes with no escape at all.
\<close>

theorem C2_injection_failing_input:
  "escapedWindowTitle title_injection = ''$(calc.exe)'' \<and>
   prefix ([LF] @ ''          if ('' @ dq @ ''$(calc.exe)'' @ dq @ '' -ne '' @ dq @ dq @ '') {'')
     (searchLogic env0 title_injection) \<and>
   captureCode env0 filename_injection =
     ''# Save to file'' @ [LF] @
     ''          $bitmap.Save('' @ sq @
        bs @ bs @ ''home'' @ bs @ bs @ ''user'' @ bs @ bs @ ''project'' @ bs @ bs @
        ''screenshots'' @ bs @ bs @ ''a'' @ sq @ ''+(calc.exe)+'' @ sq @ ''.png'' @ sq @
        '', [System.Drawing.Imaging.ImageFormat]::Png)'' @ [LF] @
     ''          $bitmap.Dispose()'' @ [LF] @
     ''          $graphics.Dispose()'' \<and>
   sublist
     (''if ('' @ sq @ ''1'' @ sq @ '' -or (calc.exe) -or '' @ sq @ ''1'' @ sq @
      '' -eq '' @ sq @ ''primary'' @ sq @ '') {'')
     (psScript env0 monitor_injection)"
proof -
  have e: "escapedWindowTitle title_injection = ''$(calc.exe)''"
    by (simp add: escapedWindowTitle_def title_injection_def no_args_def or_empty_def
          replace_char_def)
  have "searchLogic env0 title_injection =
      title_searchLogic ''$(calc.exe)'' (psWindowIndexProvided title_injection)
        (js_number_string env0 (windowIndex_of title_injection))"
    by (simp add: searchLogic_def e) (simp add: title_injection_def no_args_def truthy_def)
  then have p: "prefix ([LF] @ ''          if ('' @ dq @ ''$(calc.exe)'' @ dq @ '' -ne '' @ dq @ dq @ '') {'')
     (searchLogic env0 title_injection)"
    by (simp add: title_searchLogic_def LF_def dq_def)
  have f: "filename_of filename_injection = ''a'' @ sq @ ''+(calc.exe)+'' @ sq @ ''.png''"
    "\<not> returnDirect_of filename_injection" "\<not> truthy (arg_folder filename_injection)"
    by (simp_all add: filename_injection_def no_args_def filename_of_def returnDirect_of_def
          truthy_def)
  have w: "windowsPath env0 filename_injection =
      bs @ ''home'' @ bs @ ''user'' @ bs @ ''project'' @ bs @ ''screenshots'' @ bs @
      ''a'' @ sq @ ''+(calc.exe)+'' @ sq @ ''.png''"
    by (simp add: windowsPath_def f env0_def mnt_to_drive_def backslashes_def replace_char_def
          sq_def bs_def toLower_def is_upper_def)
  have c: "captureCode env0 filename_injection =
     ''# Save to file'' @ [LF] @
     ''          $bitmap.Save('' @ sq @
        bs @ bs @ ''home'' @ bs @ bs @ ''user'' @ bs @ bs @ ''project'' @ bs @ bs @
        ''screenshots'' @ bs @ bs @ ''a'' @ sq @ ''+(calc.exe)+'' @ sq @ ''.png'' @ sq @
        '', [System.Drawing.Imaging.ImageFormat]::Png)'' @ [LF] @
     ''          $bitmap.Dispose()'' @ [LF] @
     ''          $graphics.Dispose()''"
    by (simp add: captureCode_def f w file_captureCode_def windowsPathEscaped_def
          replace_char_def sq_def bs_def LF_def)
  from e p c monitor_injection_script show ?thesis by blast
qed



end
